theory Spec2Isabelle
  imports Main "HOL-Library.Word" "HOL-Library.Signed_Division"
begin

section \<open>The session controller of maestro (pkg/tui/model.go)\<close>

text \<open>
  The controller is a Bubble Tea model: \<open>Update\<close> takes the current \<open>Model\<close> and a
  message and returns the new model and a command (a task that the runtime executes and
  whose result comes back as a message). The embedding follows the Go source function by
  function. What the source reads from its surroundings while it handles a message (the
  viper configuration store, the file system, the container registry, the clock) is the
  record \<open>World\<close>; what the handler itself writes there is returned as a list of
  \<open>Effect\<close>s. Code the handler calls but that is not part of the source files at hand
  (the toast, spinner and home-view components, the modal's own key handling, a few
  constructors and standard-library string functions) is the record \<open>Libs\<close> of
  functions, about which nothing is assumed.
\<close>

subsection \<open>Basic types\<close>

text \<open>Go's \<open>int\<close> on a 64-bit platform: \<open>+\<close> and \<open>-\<close> wrap, comparisons are signed.\<close>

type_synonym int64 = "64 word"

text \<open>A Go \<open>error\<close> value, by its message; \<open>nil\<close> is \<open>None\<close> of \<open>error option\<close>.\<close>

type_synonym error = string

type_synonym Time = nat

text \<open>
  Modelled from the spec: \<open>container.Info\<close> is declared in pkg/container, which is not
  among the source files. The spec's Summary record has a name, a status, a branch and a
  last activity; \<open>Name\<close> and \<open>ShortName\<close> are the fields the controller reads.
\<close>

record Info =
  Name :: string
  ShortName :: string
  Status :: string
  Branch :: string
  LastActivity :: string

text \<open>
  \<open>container.OperationType\<close> is declared in pkg/container too. It is a string type with
  four named constants, which the switch statements of model.go tell apart;
  \<open>OperationOther s\<close> is any other value \<open>s\<close>. The string value of a constant is
  \<open>operationString\<close> of \<open>Libs\<close>. \<open>ContainerDetails\<close> has the fields the details modal
  prints.
\<close>

datatype OperationType =
    OperationStop
  | OperationRestart
  | OperationDelete
  | OperationRefreshTokens
  | OperationOther string

record ContainerDetails =
  cdShortName :: string
  cdStatus :: string
  cdStatusDetails :: string
  cdBranch :: string
  cdGitStatus :: string
  cdAuthStatus :: string
  cdLastActivity :: string
  cdUptime :: string
  cdCPUs :: string
  cdMemory :: string
  cdIPAddress :: string
  cdPorts :: "string list"
  cdVolumes :: "string list"
  cdEnvironment :: "string list"
  cdRecentLogs :: string

subsection \<open>Messages and commands\<close>

text \<open>
  The message types the handler switches on. A key press is given by its \<open>String()\<close>
  rendering, which is all the handler looks at. \<open>OtherMsg\<close> stands for every message type
  the handler has no case for (the components' internal messages).
\<close>

datatype Msg =
    KeyMsg string
  | WindowSizeMsg int64 int64
  | tickMsg Time
  | wizardAnimationTickMsg Time
  | refreshTickMsg Time
  | exitWizardMsg
  | wizardNextStepMsg
  | wizardPrevStepMsg
  | updateWizardConfigMsg string string
  | prerequisiteCheckResult bool string bool string
  | saveWizardConfigMsg string string "string list" bool
  | spinnerTickMsg nat
  | containersLoadedMsg "Info list" "error option"
  | ConnectRequestMsg string
  | ShowActionsMenuMsg Info
  | createContainerMsg string string bool bool
  | saveSettingsMsg string string bool bool bool
  | saveFirewallMsg string bool
  | ContainerActionMsg OperationType string
  | ConfirmActionMsg OperationType string
  | dockerOperationResult OperationType string bool "error option"
  | OtherMsg nat

text \<open>
  A \<open>tea.Cmd\<close> is a closure that the runtime runs outside the handler. The handler only
  builds them, so a command is the description of the task: which constructor of the
  source made it and with which arguments. \<open>Batch\<close> keeps the argument list of
  \<open>tea.Batch\<close> as written, \<open>CmdNil\<close> is Go's \<open>nil\<close>, \<open>LibCmd\<close> is a command made by one of
  the external components, \<open>Emit\<close> a callback that returns the given message.
\<close>

datatype Cmd =
    CmdNil
  | Quit
  | Batch "Cmd list"
  | animationTick
  | wizardAnimationTick
  | refreshTick
  | LoadContainers string
  | checkPrerequisites
  | PerformDockerOperation OperationType string
  | spinnerTick
  | operationSpinnerTick
  | NewAlertCmd string string
  | alertInit
  | LibCmd nat
  | Emit Msg

text \<open>The tasks a command schedules: \<open>tea.Batch\<close> runs every non-nil member.\<close>

fun tasks :: "Cmd \<Rightarrow> Cmd list" where
  "tasks CmdNil = []"
| "tasks (Batch cs) = concat (map tasks cs)"
| "tasks c = [c]"

subsection \<open>Modals\<close>

text \<open>
  Modelled from the spec: the modal types are declared in pkg/tui/modal.go, which is not
  among the source files; model.go names \<open>ModalInfo\<close>, \<open>ModalForm\<close> and \<open>ModalActions\<close>,
  and the spec's Modal is the tagged variant {Info, Confirm, Form, ActionsMenu}.
\<close>

datatype ModalType = ModalInfo | ModalConfirm | ModalForm | ModalActions

text \<open>
  The \<open>Modal\<close> and \<open>ModalAction\<close> structs are declared in modal.go as well; their fields
  are those the struct literals of model.go set. The text widgets of a form are kept by
  their values. An action's \<open>OnSelect\<close> closure is one of the closures model.go writes:
  \<open>OnNil\<close> (no callback), \<open>Returns msg\<close> (a closure returning a fixed message) and the
  three form submissions, which read the form's fields when they are called.
\<close>

datatype OnSelect = OnNil | Returns Msg | SubmitCreate | SubmitSettings | SubmitFirewall

record ModalAction =
  Label :: string
  Key :: string
  IsPrimary :: bool
  OnSelect :: OnSelect

record Modal =
  Type :: ModalType
  Title :: string
  Content :: string
  Width :: int64
  Height :: int64
  DisableEsc :: bool
  Actions :: "ModalAction list"
  SelectedAction :: int64
  viewport :: "(int64 \<times> int64 \<times> string) option"
  useViewport :: bool
  textarea :: "string option"
  textinputs :: "string list"
  checkboxes :: "bool list"
  focusedField :: int64
  fieldLabels :: "string list"

text \<open>A struct literal leaves the fields it does not name at their zero values.\<close>

definition zeroModal :: Modal where
  "zeroModal = \<lparr> Type = ModalInfo, Title = [], Content = [], Width = 0, Height = 0,
     DisableEsc = False, Actions = [], SelectedAction = 0, viewport = None,
     useViewport = False, textarea = None, textinputs = [], checkboxes = [],
     focusedField = 0, fieldLabels = [] \<rparr>"

definition action :: "string \<Rightarrow> string \<Rightarrow> bool \<Rightarrow> OnSelect \<Rightarrow> ModalAction" where
  "action l k p f = \<lparr> Label = l, Key = k, IsPrimary = p, OnSelect = f \<rparr>"

subsection \<open>The home view\<close>

text \<open>
  Modelled from the spec: \<open>views.HomeModel\<close> (pkg/tui/views) is not among the source
  files. The spec's Session is an ordered sequence of Summary records plus an integer
  cursor (\<open>-1\<close> = none). The size is what \<open>SetSize\<close> stores. The source holds the view by
  pointer, so a method call changes the view the model points to; the view's own key
  handling is \<open>homeUpdate\<close> of \<open>Libs\<close>.
\<close>

record HomeModel =
  containers :: "Info list"
  cursor :: int64
  hmWidth :: int64
  hmHeight :: int64

text \<open>
  Modelled from the spec: \<open>views.NewHomeModel\<close> is not among the source files. After a
  list refresh the cursor is at a valid default: \<open>0\<close>, or \<open>-1\<close> if the list is empty.
\<close>

definition NewHomeModel :: "Info list \<Rightarrow> bool \<Rightarrow> HomeModel" where
  "NewHomeModel cs b =
     \<lparr> containers = cs, cursor = (if cs = [] then - 1 else 0), hmWidth = 0, hmHeight = 0 \<rparr>"

text \<open>Modelled from the spec: the accessors of the absent \<open>HomeModel\<close>, the Session's sequence and cursor.\<close>

definition GetContainers :: "HomeModel \<Rightarrow> Info list" where
  "GetContainers h = containers h"

definition GetCursor :: "HomeModel \<Rightarrow> int64" where
  "GetCursor h = cursor h"

text \<open>
  Modelled from the spec: \<open>SetCursor\<close> of the absent \<open>HomeModel\<close>. The spec's invariant is
  that the cursor is either \<open>-1\<close> or a valid index into the current sequence: the cursor
  moves to a valid index and stays where it is otherwise.
\<close>

definition SetCursor :: "HomeModel \<Rightarrow> int64 \<Rightarrow> HomeModel" where
  "SetCursor h i =
     (if 0 \<le> sint i \<and> sint i < int (length (containers h)) then h\<lparr>cursor := i\<rparr> else h)"

text \<open>Modelled from the spec: \<open>SetSize\<close> of the absent \<open>HomeModel\<close> stores the size the view is given.\<close>

definition SetSize :: "HomeModel \<Rightarrow> int64 \<Rightarrow> int64 \<Rightarrow> HomeModel" where
  "SetSize h wd ht = h\<lparr>hmWidth := wd, hmHeight := ht\<rparr>"

subsection \<open>The model\<close>

text \<open>
  \<open>TUIResult\<close> and \<open>CachedState\<close> are declared beside the model in files that are not
  among the sources; their fields are those model.go and the root command use.
\<close>

datatype TUIAction =
  ActionQuit | ActionConnect | ActionCreate | ActionEditConfig | ActionRunCommand | ActionRunAuth

record TUIResult =
  Action :: TUIAction
  ContainerName :: string
  TaskDescription :: string
  BranchName :: string
  NoConnect :: bool
  Exact :: bool

definition zeroResult :: TUIResult where
  "zeroResult = \<lparr> Action = ActionQuit, ContainerName = [], TaskDescription = [],
     BranchName = [], NoConnect = False, Exact = False \<rparr>"

record CachedState =
  Containers :: "Info list"
  CursorPos :: int64

text \<open>
  The state of the external components (the bubbleup toast model, the bubbles spinners)
  is opaque: a value is a name for one of their states.
\<close>

datatype AlertModel = AlertState nat

datatype Spinner = SpinnerState nat

text \<open>
  The status bar holds the four columns \<open>updateStatusBar\<close> sets, each by what goes into
  it before lipgloss styles it: the daemon indicator's shade (\<open>None\<close> when the daemon is
  not running) and the container text; the path; the operation spinner's frame (when an
  operation is in progress) and the operation status; the time and the mode indicator.
\<close>

record StatusBar =
  sbDaemonShade :: "string option"
  sbContainerText :: string
  sbPathText :: string
  sbSpinnerPart :: "string option"
  sbStatusText :: string
  sbTimeText :: string
  sbModeIndicator :: string

definition zeroStatusBar :: StatusBar where
  "zeroStatusBar = \<lparr> sbDaemonShade = None, sbContainerText = [], sbPathText = [],
     sbSpinnerPart = None, sbStatusText = [], sbTimeText = [], sbModeIndicator = [] \<rparr>"

text \<open>
  The \<open>Model\<close> struct, field by field. The help component is kept by its width, the only
  thing the handler sets in it; the key map is a constant of the constructor and is left
  to the renderer.
\<close>

record Model =
  width :: int64
  height :: int64
  ready :: bool
  result :: "TUIResult option"
  homeView :: "HomeModel option"
  containerPrefix :: string
  modal :: "Modal option"
  helpWidth :: int64
  cachedCursorPos :: int64
  spinner :: Spinner
  loading :: bool
  alert :: AlertModel
  statusbar :: StatusBar
  containerCount :: int64
  operationStatus :: string
  daemonRunning :: bool
  workingDir :: string
  animationFrame :: int64
  operationInProgress :: bool
  operationSpinner :: Spinner
  wizardMode :: bool
  wizardStep :: int64
  animationColumn :: int64
  animationComplete :: bool
  wizardMemory :: string
  wizardCPUs :: string
  wizardDomains :: "string list"
  wizardRunAuthNow :: bool

subsection \<open>The surroundings\<close>

text \<open>
  \<open>Libs\<close>: the functions the handler calls whose code is not in the source files. The
  first four are the \<open>Update\<close> methods of the components (toast model, active modal,
  home view, spinner), each returning the component's next state and a command. The
  toast model and the spinners are libraries: a command of theirs is \<open>nil\<close> (\<open>None\<close>) or
  one of their own (\<open>Some n\<close>, the command \<open>LibCmd n\<close>), never a task of the controller.
  The modal and the home view belong to the controller and may return any command. Then the
  modal constructors of modal.go; then the initial component states; then the string
  value of an operation constant, standard-library functions (\<open>strings.Title\<close>,
  \<open>strings.TrimSpace\<close>, \<open>filepath.Join\<close>, the \<open>%d\<close> verb of \<open>fmt\<close>) and the styling
  helpers (\<open>style.GetDaemonShade\<close>, a spinner's \<open>View\<close>).
\<close>

record Libs =
  alertUpdate :: "AlertModel \<Rightarrow> Msg \<Rightarrow> AlertModel \<times> nat option"
  modalUpdate :: "Modal \<Rightarrow> Msg \<Rightarrow> Modal option \<times> Cmd"
  homeUpdate :: "HomeModel \<Rightarrow> Msg \<Rightarrow> HomeModel \<times> Cmd"
  spinnerUpdate :: "Spinner \<Rightarrow> Msg \<Rightarrow> Spinner \<times> nat option"
  NewErrorModal :: "string \<Rightarrow> string \<Rightarrow> Modal"
  NewConfirmModal :: "string \<Rightarrow> string \<Rightarrow> OnSelect \<Rightarrow> OnSelect \<Rightarrow> Modal"
  NewScrollableHelpModal :: "string \<Rightarrow> string \<Rightarrow> int64 \<Rightarrow> Modal"
  NewScrollableInfoModalWide :: "string \<Rightarrow> string \<Rightarrow> int64 \<Rightarrow> int64 \<Rightarrow> Modal"
  spinnerNew :: Spinner
  operationSpinnerNew :: Spinner
  alertNew :: AlertModel
  operationString :: "OperationType \<Rightarrow> string"
  stringsTitle :: "string \<Rightarrow> string"
  stringsTrimSpace :: "string \<Rightarrow> string"
  filepathJoin :: "string list \<Rightarrow> string"
  fmtInt :: "int64 \<Rightarrow> string"
  GetDaemonShade :: "int64 \<Rightarrow> string"
  spinnerView :: "Spinner \<Rightarrow> string"

text \<open>
  \<open>World\<close>: what the controller reads from outside its own state. The viper store by
  its typed getters; \<open>os.Stat\<close> by its three outcomes (no error, an error that
  \<open>os.IsNotExist\<close> accepts, any other error); the process environment; the outcome of
  each viper read or write of the configuration file (\<open>None\<close> = no error); the container
  registry; the prerequisite checker; the clock, as \<open>time.Now().Format("15:04")\<close>.
\<close>

datatype StatResult = StatOk | StatNotExist | StatOtherError

record World =
  GetBool :: "string \<Rightarrow> bool"
  GetString :: "string \<Rightarrow> string"
  GetStringSlice :: "string \<Rightarrow> string list"
  Stat :: "string \<Rightarrow> StatResult"
  GOOS :: string
  Getenv :: "string \<Rightarrow> string"
  UserHomeDir :: "error + string"
  Getwd :: string
  ReadInConfig :: "error option"
  WriteConfig :: "error option"
  SafeWriteConfig :: "error option"
  WriteConfigAs :: "error option"
  GetAllContainers :: "string \<Rightarrow> error + Info list"
  GetContainerDetails :: "string \<Rightarrow> string \<Rightarrow> error + ContainerDetails"
  dockerOperation :: "OperationType \<Rightarrow> string \<Rightarrow> error option"
  IsClaudeAvailable :: "bool \<times> string"
  IsDockerAvailable :: "bool \<times> string"
  nowHHMM :: string

text \<open>
  What the handler itself does to its surroundings, in the order it does it: writes to
  the viper store, reads and writes of the configuration file, and the goroutine that
  adds firewall domains to the running containers.
\<close>

datatype CfgValue = VBool bool | VString string | VStrings "string list"

datatype Effect =
    ViperSet string CfgValue
  | ViperSetConfigFile string
  | ViperReadInConfig
  | ViperWriteConfig
  | ViperSafeWriteConfig
  | ViperWriteConfigAs string
  | GoAddDomainToAllContainers "string list"

text \<open>The result of one call of the handler: the model and command it returns, and its effects.\<close>

record Outcome =
  newModel :: Model
  cmd :: Cmd
  effects :: "Effect list"

definition libCmd :: "nat option \<Rightarrow> Cmd" where
  "libCmd c = (case c of None \<Rightarrow> CmdNil | Some n \<Rightarrow> LibCmd n)"

definition ret :: "Model \<Rightarrow> Cmd \<Rightarrow> Outcome" where
  "ret m c = \<lparr> newModel = m, cmd = c, effects = [] \<rparr>"

definition retEff :: "Model \<Rightarrow> Cmd \<Rightarrow> Effect list \<Rightarrow> Outcome" where
  "retEff m c es = \<lparr> newModel = m, cmd = c, effects = es \<rparr>"

subsection \<open>Strings\<close>

text \<open>
  Go strings are byte strings; the non-ASCII glyphs of the source are their UTF-8 bytes.
\<close>

definition bullet :: string where "bullet = [CHR 0xE2, CHR 0x80, CHR 0xA2]"
definition checkMark :: string where "checkMark = [CHR 0xE2, CHR 0x9C, CHR 0x93]"
definition crossMark :: string where "crossMark = [CHR 0xE2, CHR 0x9C, CHR 0x97]"
definition upArrow :: string where "upArrow = [CHR 0xE2, CHR 0x86, CHR 0x91]"
definition downArrow :: string where "downArrow = [CHR 0xE2, CHR 0x86, CHR 0x93]"
definition upTriangle :: string where "upTriangle = [CHR 0xE2, CHR 0x96, CHR 0xB2]"
definition downTriangle :: string where "downTriangle = [CHR 0xE2, CHR 0x96, CHR 0xBC]"
definition hLine :: string where "hLine = [CHR 0xE2, CHR 0x94, CHR 0x80]"
definition partyPopper :: string where "partyPopper = [CHR 0xF0, CHR 0x9F, CHR 0x8E, CHR 0x89]"
definition blackCircle :: string where "blackCircle = [CHR 0xE2, CHR 0x97, CHR 0x8F]"
definition blackDiamond :: string where "blackDiamond = [CHR 0xE2, CHR 0x97, CHR 0x86]"
definition dquote :: string where "dquote = [CHR 0x22]"
definition squote :: string where "squote = [CHR 0x27]"

text \<open>\<open>strings.Join(xs, sep)\<close>, \<open>strings.Repeat\<close>, \<open>strings.HasPrefix\<close>, \<open>strings.Split(s, "\n")\<close>.\<close>

fun stringsJoin :: "string list \<Rightarrow> string \<Rightarrow> string" where
  "stringsJoin [] sep = []"
| "stringsJoin [x] sep = x"
| "stringsJoin (x # y # ys) sep = x @ sep @ stringsJoin (y # ys) sep"

definition stringsRepeat :: "string \<Rightarrow> nat \<Rightarrow> string" where
  "stringsRepeat s n = concat (replicate n s)"

definition hasPrefix :: "string \<Rightarrow> string \<Rightarrow> bool" where
  "hasPrefix s p = (take (length p) s = p)"

fun splitLines :: "string \<Rightarrow> string list" where
  "splitLines [] = [[]]"
| "splitLines (c # cs) =
     (if c = CHR 0x0A then [] # splitLines cs
      else (case splitLines cs of [] \<Rightarrow> [[c]] | l # ls \<Rightarrow> (c # l) # ls))"

text \<open>A raw string literal of several lines, written line by line.\<close>

definition rawString :: "string list \<Rightarrow> string" where
  "rawString ls = stringsJoin ls [CHR 0x0A]"

text \<open>\<open>string(action)\<close> for an operation: a constant's value, or the string itself.\<close>

definition opString :: "Libs \<Rightarrow> OperationType \<Rightarrow> string" where
  "opString L a = (case a of OperationOther s \<Rightarrow> s | _ \<Rightarrow> operationString L a)"

text \<open>The \<open>%v\<close> verb of \<open>fmt\<close> on an error.\<close>

definition fmtErr :: "error option \<Rightarrow> string" where
  "fmtErr e = (case e of None \<Rightarrow> ''<nil>'' | Some s \<Rightarrow> s)"

subsection \<open>Configuration paths (pkg/paths/paths.go)\<close>

definition GetConfigDir :: "Libs \<Rightarrow> World \<Rightarrow> string" where
  "GetConfigDir L w =
     (if GOOS w = ''windows'' then
        (let appData = Getenv w ''APPDATA'';
             appData1 = (if appData = [] then
                 filepathJoin L [Getenv w ''USERPROFILE'', ''AppData'', ''Roaming'']
               else appData)
         in filepathJoin L [appData1, ''maestro''])
      else
        (let home = (case UserHomeDir w of Inl e \<Rightarrow> Getenv w ''HOME'' | Inr h \<Rightarrow> h)
         in filepathJoin L [home, ''.maestro'']))"

definition ConfigFile :: "Libs \<Rightarrow> World \<Rightarrow> string" where
  "ConfigFile L w = filepathJoin L [GetConfigDir L w, ''config.yml'']"

definition AuthDir :: "Libs \<Rightarrow> World \<Rightarrow> string" where
  "AuthDir L w = filepathJoin L [GetConfigDir L w, ''.claude'']"

subsection \<open>The first-run predicate and the constructor\<close>

definition isFirstRun :: "Libs \<Rightarrow> World \<Rightarrow> bool" where
  "isFirstRun L w =
     (if GetBool w ''wizard.always_run'' then True
      else if GetBool w ''wizard.resume_after_auth'' then True
      else if Stat w (ConfigFile L w) = StatNotExist then True
      else if GetBool w ''bedrock.enabled'' then False
      else
        (let credPath0 = GetString w ''claude.auth_path'';
             credPath = (if credPath0 = [] then AuthDir L w else credPath0)
         in if hasPrefix credPath ''~'' then
              (case UserHomeDir w of
                 Inl e \<Rightarrow> False
               | Inr home \<Rightarrow>
                   Stat w (filepathJoin L [filepathJoin L [home, drop 1 credPath],
                     ''.credentials.json'']) = StatNotExist)
            else Stat w (filepathJoin L [credPath, ''.credentials.json'']) = StatNotExist))"

definition defaultDomains :: "string list" where
  "defaultDomains = [''registry.npmjs.org'', ''api.anthropic.com'', ''github.com'',
     ''pypi.org'', ''files.pythonhosted.org'', ''sentry.io'', ''statsig.anthropic.com'',
     ''statsig.com'']"

definition NewWithCache :: "Libs \<Rightarrow> World \<Rightarrow> string \<Rightarrow> CachedState option \<Rightarrow> Model" where
  "NewWithCache L w prefix cached =
     (let cwd = Getwd w;
          homeDir = (case UserHomeDir w of Inl e \<Rightarrow> [] | Inr h \<Rightarrow> h);
          relPath = (if hasPrefix cwd homeDir then ''~'' @ drop (length homeDir) cwd else cwd);
          m = \<lparr> width = 0, height = 0, ready = False, result = None, homeView = None,
                containerPrefix = prefix, modal = None, helpWidth = 0, cachedCursorPos = 0,
                spinner = spinnerNew L,
                loading = (case cached of None \<Rightarrow> True | Some c \<Rightarrow> Containers c = []),
                alert = alertNew L, statusbar = zeroStatusBar, containerCount = 0,
                operationStatus = ''Ready'', daemonRunning = True, workingDir = relPath,
                animationFrame = 0, operationInProgress = False,
                operationSpinner = operationSpinnerNew L, wizardMode = False,
                wizardStep = 0, animationColumn = 0, animationComplete = False,
                wizardMemory = [], wizardCPUs = [], wizardDomains = [],
                wizardRunAuthNow = False \<rparr>
      in if isFirstRun L w then
           (let m1 = m\<lparr>wizardMode := True, loading := False\<rparr>;
                resumingAfterAuth = GetBool w ''wizard.resume_after_auth'';
                m2 = (if resumingAfterAuth then
                        m1\<lparr>wizardStep := 3, animationColumn := 0, animationComplete := True,
                           modal := None\<rparr>
                      else
                        m1\<lparr>wizardStep := 0, animationColumn := 0, animationComplete := False\<rparr>);
                mem = GetString w ''containers.resources.memory'';
                cpus = GetString w ''containers.resources.cpus'';
                doms = GetStringSlice w ''firewall.allowed_domains''
            in m2\<lparr>wizardMemory := (if mem = [] then ''4g'' else mem),
                  wizardCPUs := (if cpus = [] then ''2'' else cpus),
                  wizardDomains := (if doms = [] then defaultDomains else doms),
                  wizardRunAuthNow := False\<rparr>)
         else
           (case cached of
              None \<Rightarrow> m\<lparr>cachedCursorPos := - 1\<rparr>
            | Some c \<Rightarrow>
                if Containers c \<noteq> [] then
                  m\<lparr>homeView := Some (NewHomeModel (Containers c) False), ready := True,
                    cachedCursorPos := CursorPos c\<rparr>
                else m\<lparr>cachedCursorPos := - 1\<rparr>))"

text \<open>\<open>New\<close> is the constructor without a cache.\<close>

definition New :: "Libs \<Rightarrow> World \<Rightarrow> string \<Rightarrow> Model" where
  "New L w prefix = NewWithCache L w prefix None"

subsection \<open>Tasks\<close>

text \<open>
  \<open>loadContainers\<close>, \<open>checkPrerequisites\<close> and \<open>performDockerOperation\<close> return closures.
  The command is what the handler schedules; \<open>run...\<close> is the closure's body, the
  message the task sends back when the runtime has run it in the given world.
\<close>

definition loadContainers :: "Model \<Rightarrow> Cmd" where
  "loadContainers m = LoadContainers (containerPrefix m)"

definition runLoadContainers :: "World \<Rightarrow> string \<Rightarrow> Msg" where
  "runLoadContainers w prefix =
     (case GetAllContainers w prefix of
        Inl err \<Rightarrow> containersLoadedMsg [] None
      | Inr cs \<Rightarrow> containersLoadedMsg cs None)"

definition runCheckPrerequisites :: "World \<Rightarrow> Msg" where
  "runCheckPrerequisites w =
     prerequisiteCheckResult (fst (IsClaudeAvailable w)) (snd (IsClaudeAvailable w))
       (fst (IsDockerAvailable w)) (snd (IsDockerAvailable w))"

definition performDockerOperation :: "Model \<Rightarrow> OperationType \<Rightarrow> string \<Rightarrow> Cmd" where
  "performDockerOperation m a containerName = PerformDockerOperation a containerName"

definition runPerformDockerOperation :: "World \<Rightarrow> OperationType \<Rightarrow> string \<Rightarrow> Msg" where
  "runPerformDockerOperation w a containerName =
     (let err = (case a of
                   OperationOther s \<Rightarrow> Some (''unknown operation: '' @ s)
                 | _ \<Rightarrow> dockerOperation w a containerName)
      in dockerOperationResult a containerName (err = None) err)"

definition Init :: "Model \<Rightarrow> Cmd" where
  "Init m =
     (if wizardMode m then
        (if animationComplete m then alertInit
         else Batch [alertInit, wizardAnimationTick])
      else
        Batch ([loadContainers m, alertInit]
               @ (if loading m then [spinnerTick] else [])
               @ [animationTick]
               @ [refreshTick]))"

definition GetState :: "Model \<Rightarrow> CachedState option" where
  "GetState m =
     (case homeView m of
        None \<Rightarrow> None
      | Some h \<Rightarrow> Some \<lparr> Containers = GetContainers h, CursorPos = GetCursor h \<rparr>)"

subsection \<open>The modals of model.go\<close>

definition helpText :: string where
  "helpText = rawString [
     ''Navigation:'',
     ''  '' @ upArrow @ ''/'' @ downArrow @ '' or j/k    Navigate list'',
     ''  Enter         Connect to container'',
     [],
     ''Actions:'',
     ''  a             Container actions menu'',
     ''  i             View container details'',
     ''  ?             Show this help'',
     ''  q             Quit Maestro'',
     [],
     ''Container Connection:'',
     ''  Ctrl+b d      Detach from container'',
     ''  Ctrl+b 0      Switch to Claude window'',
     ''  Ctrl+b 1      Switch to shell window'',
     [],
     ''Scrolling in Modals:'',
     ''  '' @ upArrow @ ''/'' @ downArrow @ '' or j/k    Scroll line by line'',
     ''  PgUp/PgDn     Scroll page by page'',
     ''  Space         Scroll down one page'',
     ''  Home          Jump to top'',
     ''  End           Jump to bottom'',
     [],
     ''This is scrollable content - try scrolling if you see'',
     ''the scroll indicators ('' @ upTriangle @ ''/'' @ downTriangle @ '') below this text!'']"

definition prerequisiteCheckingContent :: string where
  "prerequisiteCheckingContent = rawString [
     ''Checking Prerequisites...'',
     [],
     bullet @ '' Claude CLI: Checking...'',
     bullet @ '' Docker: Checking...'',
     [],
     ''Please wait while we verify your system requirements.'']"

definition wizardWelcomeContent :: string where
  "wizardWelcomeContent = rawString [
     ''Welcome to Maestro!'',
     [],
     ''Maestro manages isolated Docker containers for Claude Code development.'',
     ''Each container runs an independent Claude instance with:'',
     [],
     ''  '' @ bullet @ '' Its own git branch for clean organization'',
     ''  '' @ bullet @ '' Network firewall for security'',
     ''  '' @ bullet @ '' Isolated environment and dependencies'',
     [],
     ''This setup wizard will help you configure:'',
     [],
     ''  1. Authentication with Claude'',
     ''  2. Network firewall rules'',
     ''  3. Container resource limits'',
     [],
     ''Step 2 of 6'']"

definition wizardAuthConfiguredContent :: string where
  "wizardAuthConfiguredContent = rawString [
     ''Authentication: '' @ checkMark @ '' Already configured'',
     [],
     ''Your Claude credentials are already set up and ready to use.'',
     [],
     ''Step 3 of 6'']"

definition wizardAuthSetupContent :: string where
  "wizardAuthSetupContent = rawString [
     ''Authentication: Setup required'',
     [],
     ''Maestro needs to authenticate with Claude to create containers.'',
     [],
     ''At any time you can authenticate by running:'',
     [],
     ''  maestro auth'',
     [],
     ''This will open a browser window to complete OAuth authentication.'',
     ''After completing authentication, you will need to paste your'',
     ''authentication code back into the claude window and hit '' @ dquote @ ''Enter'' @ dquote @ ''.'',
     [],
     ''IMPORTANT:'',
     ''  '' @ bullet @ '' After authentication, you'' @ squote @ ''ll be asked to confirm'',
     ''    '' @ dquote @ ''Dangerously skip prompts'' @ dquote @ '' - click '' @ dquote @ ''Yes'' @ dquote @ '' to accept. This'',
     ''    setting only applies to Claude inside containers, not your'',
     ''    host system.'',
     ''  '' @ bullet @ '' When you'' @ squote @ ''re done with Claude setup, type '' @ dquote @ ''exit'' @ dquote @ '' to leave'',
     ''    the Claude console and return to this wizard.'',
     ''  '' @ bullet @ '' Depending on your git configuration, you may be prompted to'',
     ''    setup a github authentication token as well for the gh'',
     ''    command to work inside containers. You can choose to skip'',
     [CHR 0x09] @ ''this step if you want to ensure that containers cannot'',
     [CHR 0x09] @ ''access your GitHub account (but this may limit functionality).'',
     [],
     ''You can authenticate now or after completing the wizard, although'',
     ''doing it now is recommended.'',
     [],
     ''Step 3 of 6'']"

definition wizardFirewallContent :: string where
  "wizardFirewallContent = rawString [
     ''Network Firewall'',
     [],
     ''Maestro containers use a network firewall to control outbound connections.'',
     ''Only whitelisted domains can be accessed from within containers.'',
     [],
     ''Common domains (GitHub, NPM, PyPI, etc.) are pre-configured.'',
     ''You can add more domains later with the Firewall settings (f key).'',
     [],
     ''Step 4 of 6'']"


definition createHelpModal :: "Libs \<Rightarrow> Modal" where
  "createHelpModal L = NewScrollableHelpModal L ''Maestro Keybindings'' helpText 10"

definition createPrerequisiteCheckModal :: Modal where
  "createPrerequisiteCheckModal =
     zeroModal\<lparr> Type := ModalInfo, Title := ''System Requirements'',
       Content := prerequisiteCheckingContent, Width := 70, DisableEsc := True,
       Actions := [] \<rparr>"

definition createWizardWelcomeModal :: Modal where
  "createWizardWelcomeModal =
     zeroModal\<lparr> Type := ModalInfo, Title := ''Welcome to Maestro'',
       Content := wizardWelcomeContent, Width := 70, DisableEsc := True,
       Actions := [action ''Get Started'' ''enter'' True (Returns wizardNextStepMsg),
                   action ''Skip Wizard'' ''s'' False (Returns exitWizardMsg)] \<rparr>"

definition createWizardAuthModal :: "Model \<Rightarrow> bool \<Rightarrow> Modal" where
  "createWizardAuthModal m hasCredentials =
     (let content = (if hasCredentials then wizardAuthConfiguredContent
                     else wizardAuthSetupContent);
          next = action ''Next'' ''enter'' True (Returns wizardNextStepMsg);
          back = action ''Back'' ''b'' False (Returns wizardPrevStepMsg);
          runAuth = action ''Run Auth Now'' ''a'' True
            (Returns (saveWizardConfigMsg (wizardMemory m) (wizardCPUs m) (wizardDomains m) True));
          actions = (if \<not> hasCredentials then [runAuth, next, back] else [next, back])
      in zeroModal\<lparr> Type := ModalInfo, Title := ''Authentication'', Content := content,
           Width := 70, viewport := Some (66, 15, content), useViewport := True,
           DisableEsc := True, Actions := actions \<rparr>)"

definition createWizardFirewallModal :: "Model \<Rightarrow> Modal" where
  "createWizardFirewallModal m =
     zeroModal\<lparr> Type := ModalInfo, Title := ''Firewall Setup'',
       Content := wizardFirewallContent, Width := 70, DisableEsc := True,
       Actions := [action ''Next'' ''enter'' True (Returns wizardNextStepMsg),
                   action ''Back'' ''b'' False (Returns wizardPrevStepMsg)] \<rparr>"

definition createWizardContainerDefaultsModal :: "Model \<Rightarrow> Modal" where
  "createWizardContainerDefaultsModal m =
     zeroModal\<lparr> Type := ModalInfo, Title := ''Container Defaults'',
       Content := rawString [
         ''Container Defaults'',
         [],
         ''Configure default resource limits for containers.'',
         [],
         ''Current settings:'',
         ''  Memory:  '' @ wizardMemory m,
         ''  CPUs:    '' @ wizardCPUs m,
         [],
         ''These settings control how much memory and CPU each container can use.'',
         ''You can adjust these later in Settings (s key).'',
         [],
         ''Step 5 of 6''],
       Width := 70, DisableEsc := True,
       Actions := [action ''Next'' ''enter'' True (Returns wizardNextStepMsg),
                   action ''Back'' ''b'' False (Returns wizardPrevStepMsg)] \<rparr>"

definition createWizardCompletionModal :: "Libs \<Rightarrow> Model \<Rightarrow> Modal" where
  "createWizardCompletionModal L m =
     zeroModal\<lparr> Type := ModalInfo, Title := ''Welcome Complete'',
       Content := rawString [
         ''Setup Complete! '' @ partyPopper,
         [],
         ''Your configuration:'',
         [],
         ''  Memory Limit:  '' @ wizardMemory m,
         ''  CPU Limit:     '' @ wizardCPUs m,
         ''  Firewall:      '' @ fmtInt L (of_nat (length (wizardDomains m)))
            @ '' domains configured'',
         [],
         ''You'' @ squote @ ''re ready to start using Maestro!'',
         [],
         ''On the main screen, press '' @ squote @ ''n'' @ squote
            @ '' to create your first container.'',
         ''Use '' @ squote @ ''s'' @ squote @ '' to adjust settings and '' @ squote @ ''f''
            @ squote @ '' to modify firewall rules.'',
         [],
         ''Step 6 of 6''],
       Width := 70, DisableEsc := True,
       Actions := [action ''Finish'' ''enter'' True
                     (Returns (saveWizardConfigMsg (wizardMemory m) (wizardCPUs m)
                        (wizardDomains m) (wizardRunAuthNow m))),
                   action ''Back'' ''b'' False (Returns wizardPrevStepMsg)] \<rparr>"

text \<open>
  \<open>getWizardModal\<close>: the modal of the current step. Step 3 asks \<open>isFirstRun\<close> whether
  credentials exist, so it reads the world.
\<close>

definition getWizardModal :: "Libs \<Rightarrow> World \<Rightarrow> Model \<Rightarrow> Modal" where
  "getWizardModal L w m =
     (if wizardStep m = 1 then createPrerequisiteCheckModal
      else if wizardStep m = 2 then createWizardWelcomeModal
      else if wizardStep m = 3 then createWizardAuthModal m (\<not> isFirstRun L w)
      else if wizardStep m = 4 then createWizardFirewallModal m
      else if wizardStep m = 5 then createWizardContainerDefaultsModal m
      else if wizardStep m = 6 then createWizardCompletionModal L m
      else createWizardWelcomeModal)"

text \<open>
  \<open>saveWizardConfig\<close> returns its error and what it did to the configuration. Its
  argument is the \<open>saveWizardConfigMsg\<close>, field by field.
\<close>

definition saveWizardConfig ::
  "Libs \<Rightarrow> World \<Rightarrow> string \<Rightarrow> string \<Rightarrow> string list \<Rightarrow> bool \<Rightarrow> error option \<times> Effect list" where
  "saveWizardConfig L w memory cpus domains runAuthNow =
     (let configPath = ConfigFile L w;
          fileExists = (Stat w configPath = StatOk);
          reading = (if fileExists then [ViperSetConfigFile configPath, ViperReadInConfig] else []);
          setting = [ViperSet ''containers.resources.memory'' (VString memory),
                     ViperSet ''containers.resources.cpus'' (VString cpus),
                     ViperSet ''firewall.allowed_domains'' (VStrings domains),
                     ViperSet ''wizard.resume_after_auth'' (VBool runAuthNow)]
      in if fileExists \<and> ReadInConfig w \<noteq> None then
           (Some (''failed to read existing config: '' @ fmtErr (ReadInConfig w)), reading)
         else if WriteConfig w \<noteq> None then
           (if WriteConfigAs w \<noteq> None then
              (Some (''failed to write config file: '' @ fmtErr (WriteConfigAs w)),
               reading @ setting @ [ViperWriteConfig, ViperWriteConfigAs configPath])
            else (None, reading @ setting @ [ViperWriteConfig, ViperWriteConfigAs configPath]))
         else (None, reading @ setting @ [ViperWriteConfig]))"

definition createContainerDetailsModal :: "Libs \<Rightarrow> ContainerDetails \<Rightarrow> Modal" where
  "createContainerDetailsModal L details =
     (let nl = [CHR 0x0A];
          rule = stringsRepeat hLine 96 @ nl;
          content =
            ''Container: '' @ cdShortName details @ nl
            @ rule @ nl
            @ ''Status:       '' @ cdStatus details @ nl
            @ (if cdStatusDetails details \<noteq> [] then
                 ''Details:      '' @ cdStatusDetails details @ nl else [])
            @ ''Branch:       '' @ cdBranch details @ nl
            @ ''Git Status:   '' @ stringsTrimSpace L (cdGitStatus details) @ nl
            @ ''Auth Status:  '' @ cdAuthStatus details @ nl
            @ ''Last Activity: '' @ cdLastActivity details @ nl
            @ (if cdUptime details \<noteq> [] then
                 ''Uptime:       '' @ cdUptime details @ nl else [])
            @ nl
            @ ''Resources:'' @ nl
            @ rule
            @ ''CPUs:         '' @ cdCPUs details @ nl
            @ ''Memory:       '' @ cdMemory details @ nl
            @ nl
            @ ''Network:'' @ nl
            @ rule
            @ (if cdIPAddress details \<noteq> [] then
                 ''IP Address:   '' @ cdIPAddress details @ nl
               else ''IP Address:   (none)'' @ nl)
            @ (if cdPorts details \<noteq> [] then
                 ''Ports:'' @ nl @ concat (map (\<lambda>port. ''  '' @ port @ nl) (cdPorts details))
               else ''Ports:        (none)'' @ nl)
            @ nl
            @ ''Volumes:'' @ nl
            @ rule
            @ (if cdVolumes details \<noteq> [] then
                 concat (map (\<lambda>vol. ''  '' @ vol @ nl) (cdVolumes details))
               else ''(none)'' @ nl)
            @ nl
            @ ''Environment Variables:'' @ nl
            @ rule
            @ (if cdEnvironment details \<noteq> [] then
                 concat (map (\<lambda>env. ''  '' @ env @ nl) (cdEnvironment details))
               else ''(none)'' @ nl)
            @ nl
            @ ''Recent Logs (last 50 lines):'' @ nl
            @ rule
            @ cdRecentLogs details
      in NewScrollableInfoModalWide L ''Container Details'' content 20 100)"

definition createContainerCreateModal :: Modal where
  "createContainerCreateModal =
     zeroModal\<lparr> Type := ModalForm, Title := ''Create New Container'', Width := 100,
       Height := 30, textarea := Some [], textinputs := [[]],
       checkboxes := [False, False], focusedField := 0,
       fieldLabels := [''Task Description:'', ''Branch Name:'',
         ''Return to TUI after creation (--no-connect)'',
         ''Exact prompt (don'' @ squote @ ''t preprocess with AI)''],
       Actions := [action ''Create'' ''ctrl+s'' True SubmitCreate,
                   action ''Cancel'' ''esc'' False OnNil] \<rparr>"

definition createSettingsModal :: "World \<Rightarrow> Modal" where
  "createSettingsModal w =
     (let memory = GetString w ''containers.resources.memory'';
          cpus = GetString w ''containers.resources.cpus'';
          showNag = GetBool w ''daemon.show_nag'';
          autoRefreshTokens = GetBool w ''daemon.token_refresh.enabled'';
          enableNotifications = GetBool w ''daemon.notifications.enabled''
      in zeroModal\<lparr> Type := ModalForm, Title := ''Settings'', Width := 100, Height := 25,
           textinputs := [memory, cpus],
           checkboxes := [showNag, autoRefreshTokens, enableNotifications],
           focusedField := 0,
           fieldLabels := [''Memory Limit (for new containers):'',
             ''CPU Limit (for new containers):'', ''Show daemon startup reminder'',
             ''Auto-refresh authentication tokens'', ''Enable desktop notifications''],
           Actions := [action ''Save'' ''ctrl+s'' True SubmitSettings,
                       action ''Cancel'' ''esc'' False OnNil] \<rparr>)"

definition createFirewallModal :: "World \<Rightarrow> Modal" where
  "createFirewallModal w =
     (let domains = GetStringSlice w ''firewall.allowed_domains'';
          domainsText = stringsJoin domains [CHR 0x0A]
      in zeroModal\<lparr> Type := ModalForm, Title := ''Firewall Configuration'', Width := 100,
           Height := 30, textarea := Some domainsText, textinputs := [],
           checkboxes := [False], focusedField := 0,
           fieldLabels := [''Allowed Domains (one per line):'',
             ''Apply changes to running containers''],
           Actions := [action ''Save'' ''ctrl+s'' True SubmitFirewall,
                       action ''Cancel'' ''esc'' False OnNil] \<rparr>)"

definition createActionsModal :: "Info \<Rightarrow> Modal" where
  "createActionsModal containerInfo =
     zeroModal\<lparr> Type := ModalActions, Title := ''Container Actions'',
       Content := ''Select an action for: '' @ ShortName containerInfo, Width := 90,
       Actions := [
         action ''Connect'' ''c'' True (Returns (ConnectRequestMsg (Name containerInfo))),
         action ''Stop'' ''s'' False
           (Returns (ContainerActionMsg OperationStop (Name containerInfo))),
         action ''Restart'' ''r'' False
           (Returns (ContainerActionMsg OperationRestart (Name containerInfo))),
         action ''Delete'' ''d'' False
           (Returns (ContainerActionMsg OperationDelete (Name containerInfo))),
         action ''Refresh Tokens'' ''t'' False
           (Returns (ContainerActionMsg OperationRefreshTokens (Name containerInfo))),
         action ''Cancel'' ''esc'' False OnNil],
       SelectedAction := 0 \<rparr>"

text \<open>
  Calling an action's \<open>OnSelect\<close> on the modal that holds it: the message it returns, or
  \<open>None\<close> when the action has no callback. The form submissions read the form's fields
  with the guards the closures have.
\<close>

definition callOnSelect :: "Modal \<Rightarrow> OnSelect \<Rightarrow> Msg option" where
  "callOnSelect mo f =
     (case f of
        OnNil \<Rightarrow> None
      | Returns msg \<Rightarrow> Some msg
      | SubmitCreate \<Rightarrow>
          Some (createContainerMsg
            (case textarea mo of None \<Rightarrow> [] | Some v \<Rightarrow> v)
            (if length (textinputs mo) > 0 then textinputs mo ! 0 else [])
            (if length (checkboxes mo) > 0 then checkboxes mo ! 0 else False)
            (if length (checkboxes mo) > 1 then checkboxes mo ! 1 else False))
      | SubmitSettings \<Rightarrow>
          Some (saveSettingsMsg
            (if length (textinputs mo) > 0 then textinputs mo ! 0 else [])
            (if length (textinputs mo) > 1 then textinputs mo ! 1 else [])
            (if length (checkboxes mo) > 0 then checkboxes mo ! 0 else False)
            (if length (checkboxes mo) > 1 then checkboxes mo ! 1 else False)
            (if length (checkboxes mo) > 2 then checkboxes mo ! 2 else False))
      | SubmitFirewall \<Rightarrow>
          Some (saveFirewallMsg
            (case textarea mo of None \<Rightarrow> [] | Some v \<Rightarrow> v)
            (if length (checkboxes mo) > 0 then checkboxes mo ! 0 else False)))"

subsection \<open>The status bar\<close>

definition updateStatusBar :: "Libs \<Rightarrow> World \<Rightarrow> Model \<Rightarrow> Model" where
  "updateStatusBar L w m =
     (let numShades = (16 :: int64);
          cycleLength = (numShades - 1) * 2;
          step = (word_of_int (sint (animationFrame m) smod sint cycleLength) :: int64);
          shade = (if sint step < sint (numShades - 1) then step else cycleLength - step);
          daemonShade = (if daemonRunning m then Some (GetDaemonShade L shade) else None);
          containerText = (if containerCount m = 1 then ''1 container''
                           else fmtInt L (containerCount m) @ '' containers'');
          pathText = workingDir m;
          maxPathLen = (40 :: nat);
          pathText1 = (if length pathText > maxPathLen then
                         take 15 pathText @ ''...'' @ drop (length pathText - 22) pathText
                       else pathText);
          spinnerPart = (if operationInProgress m then
                           Some (spinnerView L (operationSpinner m)) else None);
          statusText = (if operationInProgress m then '' '' @ operationStatus m
                        else operationStatus m);
          timeText = nowHHMM w;
          modeIndicator = (if modal m \<noteq> None then blackDiamond else blackCircle)
      in m\<lparr>statusbar := \<lparr> sbDaemonShade = daemonShade, sbContainerText = containerText,
            sbPathText = pathText1, sbSpinnerPart = spinnerPart, sbStatusText = statusText,
            sbTimeText = timeText, sbModeIndicator = modeIndicator \<rparr>\<rparr>)"

subsection \<open>Container actions\<close>

definition handleContainerAction :: "Libs \<Rightarrow> Model \<Rightarrow> OperationType \<Rightarrow> string \<Rightarrow> Outcome" where
  "handleContainerAction L m a containerName =
     (if a = OperationStop \<or> a = OperationDelete then
        (let actionVerb = (if a = OperationDelete then ''remove'' else opString L a)
         in ret (m\<lparr>modal := Some (NewConfirmModal L
                   (''Confirm '' @ stringsTitle L (opString L a))
                   (''Are you sure you want to '' @ actionVerb @ '' container '' @ squote
                      @ containerName @ squote @ ''?'')
                   (Returns (ConfirmActionMsg a containerName))
                   OnNil)\<rparr>) CmdNil)
      else if a = OperationRestart then
        (let m1 = m\<lparr>operationInProgress := True, operationStatus := ''Restarting...''\<rparr>;
             toastCmd = NewAlertCmd ''Info'' (''Restarting container '' @ containerName @ ''...'');
             operationCmd = performDockerOperation m1 a containerName
         in ret m1 (Batch [toastCmd, operationCmd, operationSpinnerTick]))
      else if a = OperationRefreshTokens then
        (let m1 = m\<lparr>operationInProgress := True, operationStatus := ''Refreshing tokens...''\<rparr>;
             toastCmd = NewAlertCmd ''Info'' (''Refreshing tokens for '' @ containerName @ ''...'');
             operationCmd = performDockerOperation m1 a containerName
         in ret m1 (Batch [toastCmd, operationCmd, operationSpinnerTick]))
      else
        ret (m\<lparr>modal := Some (NewErrorModal L ''Error'' (''Unknown action: '' @ opString L a))\<rparr>)
          CmdNil)"

subsection \<open>The handler\<close>

text \<open>
  \<open>Update\<close> is one Go function of five parts, in this order: the toast model is updated
  with every message; a first type switch handles ticks and wizard messages and returns;
  in wizard mode the quit keys quit; an active modal gets the message; a second type
  switch handles the messages of the main view; what is left goes to the home view.
  The two switches are \<open>updateLifecycle\<close> and \<open>updateMain\<close>: \<open>None\<close> means that no
  case returned and the function goes on.
\<close>

definition exitWizard :: "Model \<Rightarrow> Model" where
  "exitWizard m = m\<lparr>wizardMode := False, modal := None, loading := True, ready := False\<rparr>"

definition prerequisiteResultsContent :: "bool \<Rightarrow> string \<Rightarrow> bool \<Rightarrow> string \<Rightarrow> string" where
  "prerequisiteResultsContent claudeAvailable claudeMessage dockerAvailable dockerMessage =
     (let nl = [CHR 0x0A];
          claudeStatus = (if claudeAvailable then checkMark else crossMark);
          dockerStatus = (if dockerAvailable then checkMark else crossMark);
          content = ''Prerequisite Check Complete'' @ nl @ nl
            @ bullet @ '' Claude CLI: '' @ claudeStatus @ '' '' @ claudeMessage @ nl
            @ bullet @ '' Docker: '' @ dockerStatus @ '' '' @ dockerMessage @ nl @ nl;
          allPassed = (claudeAvailable \<and> dockerAvailable)
      in if \<not> allPassed then
           content @ ''Please install missing prerequisites before continuing:'' @ nl @ nl
           @ (if \<not> claudeAvailable then
                bullet @ '' Install Claude CLI from https://claude.ai/download'' @ nl else [])
           @ (if \<not> dockerAvailable then
                bullet @ '' Install Docker from https://docker.com/get-started'' @ nl else [])
           @ nl @ ''Step 1 of 6''
         else content
           @ ''All prerequisites are installed! You'' @ squote @ ''re ready to continue.''
           @ nl @ nl @ ''Step 1 of 6'')"

definition prerequisiteResultsModal :: "bool \<Rightarrow> string \<Rightarrow> bool \<Rightarrow> string \<Rightarrow> Modal" where
  "prerequisiteResultsModal claudeAvailable claudeMessage dockerAvailable dockerMessage =
     (let allPassed = (claudeAvailable \<and> dockerAvailable);
          mo = zeroModal\<lparr> Type := ModalInfo, Title := ''System Requirements'',
                 Content := prerequisiteResultsContent claudeAvailable claudeMessage
                   dockerAvailable dockerMessage,
                 Width := 70, DisableEsc := True, Actions := [] \<rparr>
      in if allPassed then
           mo\<lparr>Actions := [action ''Continue'' ''enter'' True (Returns wizardNextStepMsg)]\<rparr>
         else
           mo\<lparr>Actions := [action ''Exit'' ''enter'' False (Returns exitWizardMsg)]\<rparr>)"

definition updateLifecycle :: "Libs \<Rightarrow> World \<Rightarrow> Model \<Rightarrow> Cmd \<Rightarrow> Msg \<Rightarrow> Outcome option" where
  "updateLifecycle L w m alertCmd msg =
     (case msg of
          tickMsg t \<Rightarrow>
         Some (ret (m\<lparr>animationFrame := animationFrame m + 1\<rparr>) (Batch [animationTick, alertCmd]))
        | wizardAnimationTickMsg t \<Rightarrow>
         Some (if wizardMode m \<and> \<not> animationComplete m then
                 (let m1 = m\<lparr>animationColumn := animationColumn m + 1\<rparr>
                  in if 87 \<le> sint (animationColumn m1) then
                       ret (m1\<lparr>animationComplete := True\<rparr>) alertCmd
                     else ret m1 (Batch [wizardAnimationTick, alertCmd]))
               else ret m alertCmd)
        | refreshTickMsg t \<Rightarrow>
         Some (if modal m \<noteq> None \<or> operationInProgress m then
                 ret m (Batch [refreshTick, alertCmd])
               else
                 (let m1 = m\<lparr>operationStatus := ''Syncing...''\<rparr>
                  in ret m1 (Batch [loadContainers m1, refreshTick, alertCmd])))
        | exitWizardMsg \<Rightarrow>
         Some (let configPath = ConfigFile L w;
                   missing = (Stat w configPath = StatNotExist);
                   saved = saveWizardConfig L w (wizardMemory m) (wizardCPUs m) (wizardDomains m) False;
                   es = (if missing then snd saved else [])
               in if missing \<and> fst saved \<noteq> None then
                    retEff (m\<lparr>modal := Some (NewErrorModal L ''Warning''
                              (''Could not create default config: '' @ fmtErr (fst saved)))\<rparr>)
                      alertCmd es
                  else
                    (let m1 = exitWizard m
                     in retEff m1
                          (Batch [loadContainers m1, alertCmd, spinnerTick, animationTick, refreshTick])
                          es))
        | wizardNextStepMsg \<Rightarrow>
         Some (let m1 = m\<lparr>wizardStep := wizardStep m + 1\<rparr>;
                   m2 = m1\<lparr>modal := Some (getWizardModal L w m1)\<rparr>
               in if wizardStep m2 = 1 then ret m2 (Batch [alertCmd, checkPrerequisites])
                  else ret m2 alertCmd)
        | wizardPrevStepMsg \<Rightarrow>
         Some (if 1 < sint (wizardStep m) then
                 (let m1 = m\<lparr>wizardStep := wizardStep m - 1\<rparr>;
                      m2 = m1\<lparr>modal := Some (getWizardModal L w m1)\<rparr>
                  in if wizardStep m2 = 1 then ret m2 (Batch [alertCmd, checkPrerequisites])
                     else ret m2 alertCmd)
               else ret m alertCmd)
        | updateWizardConfigMsg memory cpus \<Rightarrow>
         Some (let m1 = m\<lparr>wizardMemory := memory, wizardCPUs := cpus,
                            wizardStep := wizardStep m + 1\<rparr>;
                   m2 = m1\<lparr>modal := Some (getWizardModal L w m1)\<rparr>
               in ret m2 alertCmd)
        | prerequisiteCheckResult claudeAvailable claudeMessage dockerAvailable dockerMessage \<Rightarrow>
         Some (ret (m\<lparr>modal := Some (prerequisiteResultsModal claudeAvailable claudeMessage
                       dockerAvailable dockerMessage)\<rparr>) alertCmd)
        | saveWizardConfigMsg memory cpus domains runAuthNow \<Rightarrow>
         Some (let saved = saveWizardConfig L w memory cpus domains runAuthNow
               in if fst saved \<noteq> None then
                    retEff (m\<lparr>modal := Some (NewErrorModal L ''Failed to save configuration''
                              (fmtErr (fst saved)))\<rparr>) alertCmd (snd saved)
                  else if runAuthNow then
                    retEff (m\<lparr>result := Some (zeroResult\<lparr>Action := ActionRunAuth\<rparr>)\<rparr>) Quit
                      (snd saved)
                  else
                    (let m1 = exitWizard m;
                         toastCmd = NewAlertCmd ''Success'' ''Configuration saved!''
                     in retEff m1
                          (Batch ([loadContainers m1, alertCmd, spinnerTick, animationTick,
                                   refreshTick] @ [toastCmd]))
                          (snd saved)))
        | _ \<Rightarrow>
         None)"

text \<open>The loop that puts the cursor back on the container of the given name.\<close>

fun restoreCursor :: "HomeModel \<Rightarrow> string \<Rightarrow> Info list \<Rightarrow> int64 \<Rightarrow> HomeModel" where
  "restoreCursor h selectedContainerName [] i = h"
| "restoreCursor h selectedContainerName (c # cs) i =
     (if Name c = selectedContainerName then SetCursor h i
      else restoreCursor h selectedContainerName cs (i + 1))"

text \<open>The name of the selected container, \<open>""\<close> when there is none.\<close>

definition selectedContainerName :: "Model \<Rightarrow> string" where
  "selectedContainerName m =
     (case homeView m of
        None \<Rightarrow> []
      | Some h \<Rightarrow>
          if length (GetContainers h) > 0 then
            (let cursor = GetCursor h; containers = GetContainers h
             in if 0 \<le> sint cursor \<and> sint cursor < int (length containers) then
                  Name (containers ! nat (sint cursor))
                else [])
          else [])"

definition parseDomains :: "Libs \<Rightarrow> string \<Rightarrow> string list" where
  "parseDomains L domainsText =
     filter (\<lambda>domain. domain \<noteq> []) (map (stringsTrimSpace L) (splitLines domainsText))"

definition updateMain :: "Libs \<Rightarrow> World \<Rightarrow> Model \<Rightarrow> Msg \<Rightarrow> Outcome option" where
  "updateMain L w m msg =
     (case msg of
          WindowSizeMsg wd ht \<Rightarrow>
         Some (let m1 = m\<lparr>width := wd, height := ht, ready := True, helpWidth := wd\<rparr>;
                   create = (wizardMode m1 \<and> 0 < sint (wizardStep m1) \<and> modal m1 = None);
                   m2 = (if create then m1\<lparr>modal := Some (getWizardModal L w m1)\<rparr> else m1);
                   wizardCheckCmd = (if create \<and> wizardStep m1 = 1 then checkPrerequisites
                                     else CmdNil);
                   m3 = (case homeView m2 of
                           None \<Rightarrow> m2
                         | Some h \<Rightarrow>
                             (let h1 = SetSize h wd (ht - 9)
                              in if 0 \<le> sint (cachedCursorPos m2) then
                                   m2\<lparr>homeView := Some (SetCursor h1 (cachedCursorPos m2)),
                                      cachedCursorPos := - 1\<rparr>
                                 else m2\<lparr>homeView := Some h1\<rparr>))
               in ret m3 wizardCheckCmd)
        | spinnerTickMsg t \<Rightarrow>
         Some (let r1 = spinnerUpdate L (spinner m) (spinnerTickMsg t);
                   m1 = (if loading m then m\<lparr>spinner := fst r1\<rparr> else m);
                   cmds1 = (if loading m then [libCmd (snd r1)] else []);
                   r2 = spinnerUpdate L (operationSpinner m1) (spinnerTickMsg t);
                   m2 = (if operationInProgress m1 then m1\<lparr>operationSpinner := fst r2\<rparr> else m1);
                   cmds2 = (if operationInProgress m1 then [libCmd (snd r2)] else [])
               in ret m2 (Batch (cmds1 @ cmds2)))
        | containersLoadedMsg cs err \<Rightarrow>
         Some (let selected = selectedContainerName m;
                   h0 = NewHomeModel cs False;
                   h1 = (if 0 < sint (width m) \<and> 0 < sint (height m) then
                           SetSize h0 (width m) (height m - 9) else h0);
                   h2 = (if selected \<noteq> [] then restoreCursor h1 selected cs 0 else h1);
                   m1 = m\<lparr>homeView := Some h2, loading := False, operationStatus := ''Ready'',
                          containerCount := of_nat (length cs)\<rparr>;
                   m2 = updateStatusBar L w m1
               in if ready m2 then ret m2 CmdNil
                  else ret (m2\<lparr>ready := True\<rparr>)
                         (NewAlertCmd ''Success''
                            (''Loaded '' @ fmtInt L (of_nat (length cs)) @ '' containers'')))
        | ConnectRequestMsg containerName \<Rightarrow>
         Some (ret (m\<lparr>result := Some (zeroResult\<lparr>Action := ActionConnect,
                       ContainerName := containerName\<rparr>)\<rparr>) Quit)
        | ShowActionsMenuMsg container \<Rightarrow>
         Some (ret (m\<lparr>modal := Some (createActionsModal container)\<rparr>) CmdNil)
        | createContainerMsg taskDescription branchName noConnect exact \<Rightarrow>
         Some (ret (m\<lparr>result := Some (zeroResult\<lparr>Action := ActionCreate,
                       TaskDescription := taskDescription, BranchName := branchName,
                       NoConnect := noConnect, Exact := exact\<rparr>)\<rparr>) Quit)
        | saveSettingsMsg memory cpus showNag autoRefreshTokens enableNotifications \<Rightarrow>
         Some (let m1 = m\<lparr>modal := None\<rparr>;
                   es = (if memory \<noteq> [] then
                           [ViperSet ''containers.resources.memory'' (VString memory)] else [])
                      @ (if cpus \<noteq> [] then
                           [ViperSet ''containers.resources.cpus'' (VString cpus)] else [])
                      @ [ViperSet ''daemon.show_nag'' (VBool showNag),
                         ViperSet ''daemon.token_refresh.enabled'' (VBool autoRefreshTokens),
                         ViperSet ''daemon.notifications.enabled'' (VBool enableNotifications)]
               in if WriteConfig w \<noteq> None then
                    (if SafeWriteConfig w \<noteq> None then
                       retEff m1 (NewAlertCmd ''Error''
                           (''Failed to save settings: '' @ fmtErr (SafeWriteConfig w)))
                         (es @ [ViperWriteConfig, ViperSafeWriteConfig])
                     else
                       retEff m1 (NewAlertCmd ''Success'' ''Settings saved successfully'')
                         (es @ [ViperWriteConfig, ViperSafeWriteConfig]))
                  else
                    retEff m1 (NewAlertCmd ''Success'' ''Settings saved successfully'')
                      (es @ [ViperWriteConfig]))
        | saveFirewallMsg domainsText applyToRunning \<Rightarrow>
         Some (let m1 = m\<lparr>modal := None\<rparr>;
                   newDomains = parseDomains L domainsText;
                   oldDomains = GetStringSlice w ''firewall.allowed_domains'';
                   es = [ViperSet ''firewall.allowed_domains'' (VStrings newDomains)];
                   written = es @ (if WriteConfig w \<noteq> None then
                                     [ViperWriteConfig, ViperSafeWriteConfig]
                                   else [ViperWriteConfig]);
                   addedDomains = filter (\<lambda>newDomain. newDomain \<notin> set oldDomains) newDomains
               in if WriteConfig w \<noteq> None \<and> SafeWriteConfig w \<noteq> None then
                    retEff m1 (NewAlertCmd ''Error''
                        (''Failed to save firewall: '' @ fmtErr (SafeWriteConfig w))) written
                  else if applyToRunning \<and> length addedDomains > 0 then
                    retEff m1 (NewAlertCmd ''Info''
                        (''Firewall saved. Adding '' @ fmtInt L (of_nat (length addedDomains))
                           @ '' new domain(s) to running containers...''))
                      (written @ [GoAddDomainToAllContainers addedDomains])
                  else
                    retEff m1 (NewAlertCmd ''Success'' ''Firewall configuration saved'') written)
        | ContainerActionMsg a containerName \<Rightarrow>
         Some (handleContainerAction L m a containerName)
        | ConfirmActionMsg a containerName \<Rightarrow>
         Some (let m1 = m\<lparr>operationInProgress := True\<rparr>;
                   m2 = (if a = OperationDelete then m1\<lparr>operationStatus := ''Deleting...''\<rparr>
                         else if a = OperationStop then m1\<lparr>operationStatus := ''Stopping...''\<rparr>
                         else m1)
               in ret m2 (Batch [performDockerOperation m2 a containerName, operationSpinnerTick]))
        | dockerOperationResult a containerName success err \<Rightarrow>
         Some (let m1 = m\<lparr>operationInProgress := False\<rparr>
               in if success then
                    (let actionVerb =
                           (if a = OperationDelete then ''removed''
                            else if a = OperationStop then ''stopped''
                            else if a = OperationRestart then ''restarted''
                            else if a = OperationRefreshTokens then ''tokens refreshed for''
                            else opString L a);
                         toastCmd = NewAlertCmd ''Success''
                           (''Container '' @ containerName @ '' '' @ actionVerb);
                         m2 = m1\<lparr>operationStatus := ''Syncing...''\<rparr>
                     in ret m2 (Batch [toastCmd, loadContainers m2]))
                  else
                    ret (m1\<lparr>operationStatus := ''Ready'',
                            modal := Some (NewErrorModal L ''Operation Failed''
                              (''Failed to '' @ opString L a @ '' container '' @ containerName
                                 @ '':'' @ [CHR 0x0A, CHR 0x0A] @ fmtErr err))\<rparr>) CmdNil)
        | KeyMsg k \<Rightarrow>
         (if wizardMode m \<and> animationComplete m \<and> wizardStep m = 0 \<and> k = ''enter'' then
            Some (ret (m\<lparr>wizardStep := 1, modal := Some createPrerequisiteCheckModal\<rparr>)
                    checkPrerequisites)
          else if k = ''q'' \<or> k = ''ctrl+c'' then
            Some (ret (m\<lparr>result := Some (zeroResult\<lparr>Action := ActionQuit\<rparr>)\<rparr>) Quit)
          else if k = ''?'' then
            Some (ret (if \<not> wizardMode m then m\<lparr>modal := Some (createHelpModal L)\<rparr> else m) CmdNil)
          else if k = ''i'' then
            Some (ret
              (case homeView m of
                 None \<Rightarrow> m
               | Some h \<Rightarrow>
                   if length (GetContainers h) > 0 then
                     (let selectedIdx = GetCursor h; containers = GetContainers h
                      in if 0 \<le> sint selectedIdx \<and> sint selectedIdx < int (length containers) then
                           (case GetContainerDetails w (Name (containers ! nat (sint selectedIdx)))
                                   (containerPrefix m) of
                              Inl e \<Rightarrow>
                                m\<lparr>modal := Some (NewErrorModal L ''Error''
                                  (''Failed to fetch container details:'' @ [CHR 0x0A, CHR 0x0A] @ e))\<rparr>
                            | Inr details \<Rightarrow>
                                m\<lparr>modal := Some (createContainerDetailsModal L details)\<rparr>)
                         else m)
                   else m)
              CmdNil)
          else if k = ''n'' then
            Some (ret (m\<lparr>modal := Some createContainerCreateModal\<rparr>) CmdNil)
          else if k = ''s'' then
            Some (ret (m\<lparr>modal := Some (createSettingsModal w)\<rparr>) CmdNil)
          else if k = ''f'' then
            Some (ret (m\<lparr>modal := Some (createFirewallModal w)\<rparr>) CmdNil)
          else None)
        | _ \<Rightarrow>
         None)"

definition isQuitKey :: "Msg \<Rightarrow> bool" where
  "isQuitKey msg = (case msg of KeyMsg k \<Rightarrow> k = ''q'' \<or> k = ''ctrl+c'' | _ \<Rightarrow> False)"

definition Update :: "Libs \<Rightarrow> World \<Rightarrow> Model \<Rightarrow> Msg \<Rightarrow> Outcome" where
  "Update L w m0 msg =
     (let outAlert = fst (alertUpdate L (alert m0) msg);
          alertCmd = libCmd (snd (alertUpdate L (alert m0) msg));
          m = m0\<lparr>alert := outAlert\<rparr>
      in case updateLifecycle L w m alertCmd msg of
           Some r \<Rightarrow> r
         | None \<Rightarrow>
             if wizardMode m \<and> isQuitKey msg then
               ret (m\<lparr>result := Some (zeroResult\<lparr>Action := ActionQuit\<rparr>)\<rparr>) Quit
             else
               (case modal m of
                  Some mo \<Rightarrow>
                    ret (m\<lparr>modal := fst (modalUpdate L mo msg)\<rparr>)
                        (Batch [snd (modalUpdate L mo msg), alertCmd])
                | None \<Rightarrow>
                    (case updateMain L w m msg of
                       Some r \<Rightarrow> r
                     | None \<Rightarrow>
                         (case homeView m of
                            None \<Rightarrow> ret m (Batch [CmdNil, alertCmd])
                          | Some h \<Rightarrow>
                              ret (m\<lparr>homeView := Some (fst (homeUpdate L h msg))\<rparr>)
                                  (Batch [snd (homeUpdate L h msg), alertCmd])))))"

text \<open>\<open>GetResult\<close>: a result set by the handler ends the loop.\<close>

definition GetResult :: "Model \<Rightarrow> TUIResult option" where
  "GetResult m = result m"

text \<open>
  The loop: the messages are handled one at a time, in order, each in the world as it is
  when the message is handled.
\<close>

fun run :: "Libs \<Rightarrow> Model \<Rightarrow> (World \<times> Msg) list \<Rightarrow> Model" where
  "run L m [] = m"
| "run L m ((w, msg) # rest) = run L (newModel (Update L w m msg)) rest"

subsection \<open>Concrete surroundings\<close>

text \<open>
  Stand-ins for the components and a world, to run the handler on concrete inputs. The
  components do nothing (the toast model and spinners keep their state and return no
  command, the modal and the home view stay as they are); the modal constructors fill in
  the title and the content. The world has a configuration file and credentials, an
  empty viper store and an empty registry. Theorems are stated for every \<open>Libs\<close> and
  \<open>World\<close>; these serve the closed examples.
\<close>

definition exampleLibs :: Libs where
  "exampleLibs =
     \<lparr> alertUpdate = (\<lambda>a msg. (a, None)),
       modalUpdate = (\<lambda>mo msg. (Some mo, CmdNil)),
       homeUpdate = (\<lambda>h msg. (h, CmdNil)),
       spinnerUpdate = (\<lambda>sp msg. (sp, None)),
       NewErrorModal = (\<lambda>t c. zeroModal\<lparr>Type := ModalInfo, Title := t, Content := c\<rparr>),
       NewConfirmModal = (\<lambda>t c y n. zeroModal\<lparr>Type := ModalConfirm, Title := t,
          Content := c, Actions := [action ''Confirm'' ''y'' True y, action ''Cancel'' ''n'' False n]\<rparr>),
       NewScrollableHelpModal = (\<lambda>t c n. zeroModal\<lparr>Type := ModalInfo, Title := t,
          Content := c, Height := n\<rparr>),
       NewScrollableInfoModalWide = (\<lambda>t c n wd. zeroModal\<lparr>Type := ModalInfo, Title := t,
          Content := c, Width := wd, Height := n\<rparr>),
       spinnerNew = SpinnerState 0,
       operationSpinnerNew = SpinnerState 1,
       alertNew = AlertState 0,
       operationString = (\<lambda>a. case a of OperationStop \<Rightarrow> ''stop''
          | OperationRestart \<Rightarrow> ''restart'' | OperationDelete \<Rightarrow> ''delete''
          | OperationRefreshTokens \<Rightarrow> ''refresh-tokens'' | OperationOther s \<Rightarrow> s),
       stringsTitle = (\<lambda>s. s),
       stringsTrimSpace = (\<lambda>s. s),
       filepathJoin = (\<lambda>xs. stringsJoin xs ''/''),
       fmtInt = (\<lambda>i. ''#''),
       GetDaemonShade = (\<lambda>i. ''green''),
       spinnerView = (\<lambda>sp. ''*'') \<rparr>"

definition exampleWorld :: World where
  "exampleWorld =
     \<lparr> GetBool = (\<lambda>k. False),
       GetString = (\<lambda>k. []),
       GetStringSlice = (\<lambda>k. []),
       Stat = (\<lambda>p. StatOk),
       GOOS = ''linux'',
       Getenv = (\<lambda>k. []),
       UserHomeDir = Inr ''/home/u'',
       Getwd = ''/home/u/project'',
       ReadInConfig = None,
       WriteConfig = None,
       SafeWriteConfig = None,
       WriteConfigAs = None,
       GetAllContainers = (\<lambda>p. Inr []),
       GetContainerDetails = (\<lambda>n p. Inl ''no such container''),
       dockerOperation = (\<lambda>a n. None),
       IsClaudeAvailable = (True, ''found''),
       IsDockerAvailable = (True, ''running''),
       nowHHMM = ''12:00'' \<rparr>"

text \<open>A world after the external authentication step: the resume flag is set.\<close>

definition resumeWorld :: World where
  "resumeWorld = exampleWorld\<lparr>GetBool := (\<lambda>k. k = ''wizard.resume_after_auth'')\<rparr>"

text \<open>A world with a configuration file, Bedrock enabled and no other file.\<close>

definition bedrockWorld :: World where
  "bedrockWorld = exampleWorld\<lparr>GetBool := (\<lambda>k. k = ''bedrock.enabled''),
     Stat := (\<lambda>p. if p = ''/home/u/.maestro/config.yml'' then StatOk else StatNotExist)\<rparr>"

text \<open>A world on the first run: no file exists.\<close>

definition freshWorld :: World where
  "freshWorld = exampleWorld\<lparr>Stat := (\<lambda>p. StatNotExist)\<rparr>"

definition exampleInfo :: "string \<Rightarrow> Info" where
  "exampleInfo n = \<lparr> Name = n, ShortName = n, Status = ''running'', Branch = ''main'',
     LastActivity = ''now'' \<rparr>"

text \<open>The main view with the given containers and cursor, ready, no modal.\<close>

definition exampleModel :: "Info list \<Rightarrow> int64 \<Rightarrow> Model" where
  "exampleModel cs i =
     \<lparr> width = 80, height = 24, ready = True, result = None,
       homeView = Some \<lparr> containers = cs, cursor = i, hmWidth = 80, hmHeight = 15 \<rparr>,
       containerPrefix = ''maestro-'', modal = None, helpWidth = 80, cachedCursorPos = - 1,
       spinner = SpinnerState 0, loading = False, alert = AlertState 0,
       statusbar = zeroStatusBar, containerCount = of_nat (length cs),
       operationStatus = ''Ready'', daemonRunning = True, workingDir = ''~/project'',
       animationFrame = 0, operationInProgress = False,
       operationSpinner = SpinnerState 1, wizardMode = False, wizardStep = 0,
       animationColumn = 0, animationComplete = False, wizardMemory = [],
       wizardCPUs = [], wizardDomains = [], wizardRunAuthNow = False \<rparr>"

text \<open>The wizard at the given step, its modal on screen.\<close>

definition exampleWizard :: "int64 \<Rightarrow> Modal option \<Rightarrow> Model" where
  "exampleWizard step mo =
     \<lparr> width = 80, height = 24, ready = True, result = None, homeView = None,
       containerPrefix = ''maestro-'', modal = mo, helpWidth = 80, cachedCursorPos = 0,
       spinner = SpinnerState 0, loading = False, alert = AlertState 0,
       statusbar = zeroStatusBar, containerCount = 0, operationStatus = ''Ready'',
       daemonRunning = True, workingDir = ''~/project'', animationFrame = 0,
       operationInProgress = False, operationSpinner = SpinnerState 1, wizardMode = True,
       wizardStep = step, animationColumn = 87, animationComplete = True,
       wizardMemory = ''4g'', wizardCPUs = ''2'', wizardDomains = defaultDomains,
       wizardRunAuthNow = False \<rparr>"

subsection \<open>Notions the properties use\<close>

text \<open>A command schedules a reload when one of its tasks is the container enumeration.\<close>

fun isReload :: "Cmd \<Rightarrow> bool" where
  "isReload (LoadContainers p) = True"
| "isReload c = False"

definition schedulesReload :: "Cmd \<Rightarrow> bool" where
  "schedulesReload c = list_ex isReload (tasks c)"

text \<open>
  A state has a valid selection when the home view exists and its cursor is a valid
  index into its list.
\<close>

definition validSelection :: "Model \<Rightarrow> bool" where
  "validSelection m =
     (case homeView m of
        None \<Rightarrow> False
      | Some h \<Rightarrow>
          0 \<le> sint (GetCursor h) \<and> sint (GetCursor h) < int (length (GetContainers h)))"

text \<open>The Session invariant: the cursor is \<open>-1\<close> or a valid index into the list.\<close>

definition validCursor :: "HomeModel \<Rightarrow> bool" where
  "validCursor h =
     (GetCursor h = - 1
      \<or> (0 \<le> sint (GetCursor h) \<and> sint (GetCursor h) < int (length (GetContainers h))))"

text \<open>
  \<open>readsWorld m msg\<close>: the case of the handler that takes the message \<open>msg\<close> in the state
  \<open>m\<close> reads the world (it calls viper, \<open>os.Stat\<close>, the registry or the clock) or writes
  to it. The cases of the first switch come first; the others are reached only if the
  message is not a quit key of the wizard and no modal is active.
\<close>

definition readsWorld :: "Model \<Rightarrow> Msg \<Rightarrow> bool" where
  "readsWorld m msg =
     (case msg of
        tickMsg t \<Rightarrow> False
      | wizardAnimationTickMsg t \<Rightarrow> False
      | refreshTickMsg t \<Rightarrow> False
      | exitWizardMsg \<Rightarrow> True
      | wizardNextStepMsg \<Rightarrow> wizardStep m + 1 = 3
      | wizardPrevStepMsg \<Rightarrow> 1 < sint (wizardStep m) \<and> wizardStep m - 1 = 3
      | updateWizardConfigMsg memory cpus \<Rightarrow> wizardStep m + 1 = 3
      | prerequisiteCheckResult ca cm da dm \<Rightarrow> False
      | saveWizardConfigMsg memory cpus domains runAuthNow \<Rightarrow> True
      | _ \<Rightarrow>
          if wizardMode m \<and> isQuitKey msg then False
          else if modal m \<noteq> None then False
          else (case msg of
                  WindowSizeMsg wd ht \<Rightarrow> wizardMode m \<and> wizardStep m = 3
                | containersLoadedMsg cs err \<Rightarrow> True
                | saveSettingsMsg memory cpus showNag autoRefresh notifications \<Rightarrow> True
                | saveFirewallMsg domainsText applyToRunning \<Rightarrow> True
                | KeyMsg k \<Rightarrow> k = ''i'' \<or> k = ''s'' \<or> k = ''f''
                | _ \<Rightarrow> False))"

section \<open>Properties\<close>

subsection \<open>Auxiliary facts\<close>

lemmas Update_defs = Update_def updateLifecycle_def updateMain_def Let_def ret_def retEff_def
  isQuitKey_def

lemma libCmd_no_reload [simp]: "list_ex isReload (tasks (libCmd c)) = False"
  by (cases c) (simp_all add: libCmd_def)

text \<open>
  A list-loaded message or an operation result that arrives while a modal is active is
  not handled by the main view: it is passed to the modal component, whatever that
  component is.
\<close>

lemma Update_modal_active:
  "modal m = Some mo \<Longrightarrow>
     Update L w m (containersLoadedMsg cs err) =
       ret (m\<lparr>alert := fst (alertUpdate L (alert m) (containersLoadedMsg cs err)),
              modal := fst (modalUpdate L mo (containersLoadedMsg cs err))\<rparr>)
           (Batch [snd (modalUpdate L mo (containersLoadedMsg cs err)),
                   libCmd (snd (alertUpdate L (alert m) (containersLoadedMsg cs err)))])"
  "modal m = Some mo \<Longrightarrow>
     Update L w m (dockerOperationResult a x ok e) =
       ret (m\<lparr>alert := fst (alertUpdate L (alert m) (dockerOperationResult a x ok e)),
              modal := fst (modalUpdate L mo (dockerOperationResult a x ok e))\<rparr>)
           (Batch [snd (modalUpdate L mo (dockerOperationResult a x ok e)),
                   libCmd (snd (alertUpdate L (alert m) (dockerOperationResult a x ok e)))])"
  by (simp_all add: Update_defs)

subsection \<open>The background refresh tick\<close>

text \<open>
  C5. For every state in which a modal is active or an operation is in progress, the
  background-refresh tick schedules no reload task: the handler returns the model as it
  was and the command that reschedules the tick. Otherwise the tick sets the status to
  Syncing and schedules the reload task and the next tick. In both cases the toast
  component has been given the message first, as it is given every message: its state
  \<open>alert\<close> and its command are whatever that library returns, and a command of that
  library is never the reload task. The handler has no side effect of its own.
\<close>

theorem refresh_tick_skips_or_reloads:
  fixes L w m t
  defines "r \<equiv> Update L w m (refreshTickMsg t)"
    and "a \<equiv> alertUpdate L (alert m) (refreshTickMsg t)"
  shows "(modal m \<noteq> None \<or> operationInProgress m \<longrightarrow>
            newModel r = m\<lparr>alert := fst a\<rparr>
          \<and> cmd r = Batch [refreshTick, libCmd (snd a)]
          \<and> effects r = []
          \<and> \<not> schedulesReload (cmd r)
          \<and> refreshTick \<in> set (tasks (cmd r)))
       \<and> (modal m = None \<and> \<not> operationInProgress m \<longrightarrow>
            newModel r = m\<lparr>alert := fst a, operationStatus := ''Syncing...''\<rparr>
          \<and> cmd r = Batch [LoadContainers (containerPrefix m), refreshTick, libCmd (snd a)]
          \<and> effects r = []
          \<and> schedulesReload (cmd r)
          \<and> refreshTick \<in> set (tasks (cmd r)))"
  unfolding r_def a_def
  by (simp add: Update_defs loadContainers_def schedulesReload_def)

text \<open>
  The tick with the prerequisite modal on screen, and the tick in the idle main view.
\<close>

theorem refresh_tick_witness:
  "modal ((exampleModel [] (- 1))\<lparr>modal := Some createPrerequisiteCheckModal\<rparr>) \<noteq> None
   \<and> cmd (Update exampleLibs exampleWorld
        ((exampleModel [] (- 1))\<lparr>modal := Some createPrerequisiteCheckModal\<rparr>) (refreshTickMsg 0))
      = Batch [refreshTick, CmdNil]
   \<and> modal (exampleModel [] (- 1)) = None
   \<and> \<not> operationInProgress (exampleModel [] (- 1))
   \<and> cmd (Update exampleLibs exampleWorld (exampleModel [] (- 1)) (refreshTickMsg 0))
      = Batch [LoadContainers ''maestro-'', refreshTick, CmdNil]"
  using refresh_tick_skips_or_reloads
      [of "(exampleModel [] (- 1))\<lparr>modal := Some createPrerequisiteCheckModal\<rparr>"
          exampleLibs exampleWorld 0]
    refresh_tick_skips_or_reloads [of "exampleModel [] (- 1)" exampleLibs exampleWorld 0]
  by (simp add: exampleModel_def exampleLibs_def libCmd_def)

subsection \<open>Key routing under a modal\<close>

text \<open>
  C6. In wizard mode (onboarding) the quit keys \<open>q\<close> and \<open>ctrl+c\<close> end the loop with the
  quit result, whether or not a modal is active. Outside wizard mode with an active
  modal, every key, the quit keys included, goes to the modal's own \<open>Update\<close> and nowhere
  else: the model changes only in its modal (and in the toast component, which sees
  every message), no result is set, and the command is the modal's. In wizard mode the
  keys other than the quit keys go to the active modal in the same way.
\<close>

theorem quit_key_only_in_wizard:
  fixes L w m k
  defines "r \<equiv> Update L w m (KeyMsg k)"
    and "a \<equiv> alertUpdate L (alert m) (KeyMsg k)"
  shows "(wizardMode m \<and> (k = ''q'' \<or> k = ''ctrl+c'') \<longrightarrow>
            newModel r = m\<lparr>alert := fst a, result := Some (zeroResult\<lparr>Action := ActionQuit\<rparr>)\<rparr>
          \<and> cmd r = Quit \<and> effects r = [])
       \<and> (\<forall>mo. modal m = Some mo \<and> (\<not> wizardMode m \<or> (k \<noteq> ''q'' \<and> k \<noteq> ''ctrl+c'')) \<longrightarrow>
            newModel r = m\<lparr>alert := fst a, modal := fst (modalUpdate L mo (KeyMsg k))\<rparr>
          \<and> cmd r = Batch [snd (modalUpdate L mo (KeyMsg k)), libCmd (snd a)]
          \<and> effects r = []
          \<and> GetResult (newModel r) = GetResult m)"
  unfolding r_def a_def
  by (auto simp add: Update_defs GetResult_def)


text \<open>
  The quit key under the wizard's welcome modal, and under the create form of the main view.
\<close>

theorem quit_key_witness:
  "wizardMode (exampleWizard 2 (Some createWizardWelcomeModal))
   \<and> GetResult (newModel (Update exampleLibs exampleWorld
        (exampleWizard 2 (Some createWizardWelcomeModal)) (KeyMsg ''q'')))
      = Some (zeroResult\<lparr>Action := ActionQuit\<rparr>)
   \<and> cmd (Update exampleLibs exampleWorld
        (exampleWizard 2 (Some createWizardWelcomeModal)) (KeyMsg ''q'')) = Quit
   \<and> \<not> wizardMode ((exampleModel [] (- 1))\<lparr>modal := Some createContainerCreateModal\<rparr>)
   \<and> GetResult (newModel (Update exampleLibs exampleWorld
        ((exampleModel [] (- 1))\<lparr>modal := Some createContainerCreateModal\<rparr>) (KeyMsg ''q'')))
      = None
   \<and> cmd (Update exampleLibs exampleWorld
        ((exampleModel [] (- 1))\<lparr>modal := Some createContainerCreateModal\<rparr>) (KeyMsg ''q''))
      = Batch [CmdNil, CmdNil]"
  using quit_key_only_in_wizard
      [of "exampleWizard 2 (Some createWizardWelcomeModal)" "''q''" exampleLibs exampleWorld]
    quit_key_only_in_wizard
      [of "(exampleModel [] (- 1))\<lparr>modal := Some createContainerCreateModal\<rparr>" "''q''"
          exampleLibs exampleWorld]
  by (simp add: exampleModel_def exampleWizard_def exampleLibs_def libCmd_def GetResult_def)

subsection \<open>Deleting a container\<close>

text \<open>
  The steps of the delete flow in a state without an active modal, and the key that
  opens the help modal.
\<close>

lemma Update_delete_steps:
  assumes "modal m = None"
  shows "Update L w m (ContainerActionMsg OperationDelete x) =
           ret (m\<lparr>alert := fst (alertUpdate L (alert m) (ContainerActionMsg OperationDelete x)),
                  modal := Some (NewConfirmModal L
                    (''Confirm '' @ stringsTitle L (operationString L OperationDelete))
                    (''Are you sure you want to remove container '' @ squote @ x @ squote @ ''?'')
                    (Returns (ConfirmActionMsg OperationDelete x)) OnNil)\<rparr>) CmdNil"
    and "Update L w m (ConfirmActionMsg OperationDelete x) =
           ret (m\<lparr>alert := fst (alertUpdate L (alert m) (ConfirmActionMsg OperationDelete x)),
                  operationInProgress := True, operationStatus := ''Deleting...''\<rparr>)
               (Batch [PerformDockerOperation OperationDelete x, operationSpinnerTick])"
    and "Update L w m (dockerOperationResult OperationDelete x True e) =
           ret (m\<lparr>alert := fst (alertUpdate L (alert m)
                      (dockerOperationResult OperationDelete x True e)),
                  operationInProgress := False, operationStatus := ''Syncing...''\<rparr>)
               (Batch [NewAlertCmd ''Success'' (''Container '' @ x @ '' removed''),
                       LoadContainers (containerPrefix m)])"
    and "operationStatus (newModel (Update L w m (containersLoadedMsg cs err))) = ''Ready''"
  using assms
  by (simp_all add: Update_defs handleContainerAction_def opString_def
        performDockerOperation_def loadContainers_def updateStatusBar_def)

lemma Update_help_key:
  "modal m = None \<Longrightarrow> \<not> wizardMode m \<Longrightarrow>
     Update L w m (KeyMsg ''?'') =
       ret (m\<lparr>alert := fst (alertUpdate L (alert m) (KeyMsg ''?'')),
              modal := Some (createHelpModal L)\<rparr>) CmdNil"
  by (simp add: Update_defs)

text \<open>
  The delete flow, one message after the other, when no modal is active as each message
  arrives: the request puts the confirm modal on screen, whose confirm callback returns
  the confirmation message; the modal component (modal.go, not in src) closes it; the
  confirmation sets the status to Deleting and schedules the delete task; the task
  succeeds in the registry; its result schedules the toast and the reload with the
  status Syncing; the list-loaded message sets the status to Ready.
\<close>

lemma delete_flow_without_modal:
  fixes L w m x w' cs err
  assumes "modal m = None" and "dockerOperation w' OperationDelete x = None"
  defines "r1 \<equiv> Update L w m (ContainerActionMsg OperationDelete x)"
  defines "r2 \<equiv> Update L w ((newModel r1)\<lparr>modal := None\<rparr>) (ConfirmActionMsg OperationDelete x)"
  defines "r3 \<equiv> Update L w (newModel r2) (runPerformDockerOperation w' OperationDelete x)"
  defines "r4 \<equiv> Update L w (newModel r3) (containersLoadedMsg cs err)"
  shows "modal (newModel r1) = Some (NewConfirmModal L
            (''Confirm '' @ stringsTitle L (operationString L OperationDelete))
            (''Are you sure you want to remove container '' @ squote @ x @ squote @ ''?'')
            (Returns (ConfirmActionMsg OperationDelete x)) OnNil)
       \<and> cmd r1 = CmdNil
       \<and> operationStatus (newModel r2) = ''Deleting...''
       \<and> operationInProgress (newModel r2)
       \<and> cmd r2 = Batch [PerformDockerOperation OperationDelete x, operationSpinnerTick]
       \<and> runPerformDockerOperation w' OperationDelete x
            = dockerOperationResult OperationDelete x True None
       \<and> cmd r3 = Batch [NewAlertCmd ''Success'' (''Container '' @ x @ '' removed''),
                         LoadContainers (containerPrefix m)]
       \<and> operationStatus (newModel r3) = ''Syncing...''
       \<and> \<not> operationInProgress (newModel r3)
       \<and> operationStatus (newModel r4) = ''Ready''"
proof -
  have m1: "modal ((newModel r1)\<lparr>modal := None\<rparr>) = None" by simp
  have p1: "containerPrefix ((newModel r1)\<lparr>modal := None\<rparr>) = containerPrefix m"
    by (simp add: r1_def Update_delete_steps(1) [OF assms(1)] ret_def)
  have e2: "r2 = ret ((newModel r1)\<lparr>modal := None,
        alert := fst (alertUpdate L (alert (newModel r1)) (ConfirmActionMsg OperationDelete x)),
        operationInProgress := True, operationStatus := ''Deleting...''\<rparr>)
      (Batch [PerformDockerOperation OperationDelete x, operationSpinnerTick])"
    by (simp add: r2_def Update_delete_steps(2) [OF m1])
  have m2: "modal (newModel r2) = None"
    and p2: "containerPrefix (newModel r2) = containerPrefix m"
    using p1 by (simp_all add: e2 ret_def)
  have msg: "runPerformDockerOperation w' OperationDelete x
      = dockerOperationResult OperationDelete x True None"
    using assms(2) by (simp add: runPerformDockerOperation_def)
  have e3: "r3 = ret ((newModel r2)\<lparr>alert := fst (alertUpdate L (alert (newModel r2))
                      (dockerOperationResult OperationDelete x True None)),
                  operationInProgress := False, operationStatus := ''Syncing...''\<rparr>)
               (Batch [NewAlertCmd ''Success'' (''Container '' @ x @ '' removed''),
                       LoadContainers (containerPrefix m)])"
    by (simp add: r3_def msg Update_delete_steps(3) [OF m2] p2)
  have m3: "modal (newModel r3) = None"
    using m2 by (simp add: e3 ret_def)
  have e4: "operationStatus (newModel r4) = ''Ready''"
    unfolding r4_def by (rule Update_delete_steps(4) [OF m3])
  show ?thesis
    using msg e4
    by (simp add: r1_def Update_delete_steps(1) [OF assms(1)] e2 e3 ret_def)
qed

text \<open>
  C4. The code at the failing input: the result of the delete task arrives while a modal
  is active (the help modal, opened with \<open>?\<close> while the operation runs). The handler
  passes the message to the modal component and returns: it emits no "removed" toast and
  no reload task (the only commands are those of the modal and toast components), the
  operation status stays as it was and the operation stays in progress, so that every
  later refresh tick skips the reload too.
\<close>

theorem delete_result_lost_under_modal:
  fixes L w m mo x w2 t
  assumes "modal m = Some mo"
  defines "msg \<equiv> dockerOperationResult OperationDelete x True None"
  defines "r \<equiv> Update L w m (dockerOperationResult OperationDelete x True None)"
  shows "newModel r = m\<lparr>alert := fst (alertUpdate L (alert m) msg),
                         modal := fst (modalUpdate L mo msg)\<rparr>
       \<and> cmd r = Batch [snd (modalUpdate L mo msg), libCmd (snd (alertUpdate L (alert m) msg))]
       \<and> effects r = []
       \<and> operationStatus (newModel r) = operationStatus m
       \<and> operationInProgress (newModel r) = operationInProgress m
       \<and> (operationInProgress m \<longrightarrow>
            \<not> schedulesReload (cmd (Update L w2 (newModel r) (refreshTickMsg t))))"
proof -
  have e: "r = ret (m\<lparr>alert := fst (alertUpdate L (alert m) msg),
                       modal := fst (modalUpdate L mo msg)\<rparr>)
      (Batch [snd (modalUpdate L mo msg), libCmd (snd (alertUpdate L (alert m) msg))])"
    unfolding r_def msg_def by (rule Update_modal_active(2) [OF assms(1)])
  have t: "operationInProgress m \<Longrightarrow>
      \<not> schedulesReload (cmd (Update L w2 (newModel r) (refreshTickMsg t)))"
    by (simp add: e ret_def Update_def updateLifecycle_def Let_def schedulesReload_def)
  show ?thesis
    using t by (simp add: e ret_def)
qed

text \<open>
  The container \<open>x\<close> of the example main view: the confirmation, the key \<open>?\<close>, then the
  result of the task.
\<close>

theorem delete_result_lost_witness:
  "modal (run exampleLibs (exampleModel [exampleInfo ''x''] 0)
      [(exampleWorld, ConfirmActionMsg OperationDelete ''x''), (exampleWorld, KeyMsg ''?'')])
     = Some (createHelpModal exampleLibs)
   \<and> operationInProgress (run exampleLibs (exampleModel [exampleInfo ''x''] 0)
      [(exampleWorld, ConfirmActionMsg OperationDelete ''x''), (exampleWorld, KeyMsg ''?'')])
   \<and> runPerformDockerOperation exampleWorld OperationDelete ''x''
     = dockerOperationResult OperationDelete ''x'' True None
   \<and> operationStatus (run exampleLibs (exampleModel [exampleInfo ''x''] 0)
      [(exampleWorld, ConfirmActionMsg OperationDelete ''x''), (exampleWorld, KeyMsg ''?''),
       (exampleWorld, dockerOperationResult OperationDelete ''x'' True None)])
     = ''Deleting...''
   \<and> operationInProgress (run exampleLibs (exampleModel [exampleInfo ''x''] 0)
      [(exampleWorld, ConfirmActionMsg OperationDelete ''x''), (exampleWorld, KeyMsg ''?''),
       (exampleWorld, dockerOperationResult OperationDelete ''x'' True None)])
   \<and> tasks (cmd (Update exampleLibs exampleWorld
        (run exampleLibs (exampleModel [exampleInfo ''x''] 0)
          [(exampleWorld, ConfirmActionMsg OperationDelete ''x''), (exampleWorld, KeyMsg ''?'')])
        (dockerOperationResult OperationDelete ''x'' True None))) = []
   \<and> \<not> schedulesReload (cmd (Update exampleLibs exampleWorld
        (run exampleLibs (exampleModel [exampleInfo ''x''] 0)
          [(exampleWorld, ConfirmActionMsg OperationDelete ''x''), (exampleWorld, KeyMsg ''?''),
           (exampleWorld, dockerOperationResult OperationDelete ''x'' True None)])
        (refreshTickMsg 0)))"
proof -
  let ?m0 = "exampleModel [exampleInfo ''x''] 0"
  define m2 where "m2 = run exampleLibs ?m0
      [(exampleWorld, ConfirmActionMsg OperationDelete ''x''), (exampleWorld, KeyMsg ''?'')]"
  have h0: "modal ?m0 = None" "\<not> wizardMode ?m0" by (simp_all add: exampleModel_def)
  have m1: "newModel (Update exampleLibs exampleWorld ?m0 (ConfirmActionMsg OperationDelete ''x''))
      = ?m0\<lparr>alert := fst (alertUpdate exampleLibs (alert ?m0)
                 (ConfirmActionMsg OperationDelete ''x'')),
             operationInProgress := True, operationStatus := ''Deleting...''\<rparr>"
    by (simp add: Update_delete_steps(2) [OF h0(1)] ret_def)
  have e2: "m2 = ?m0\<lparr>alert := fst (alertUpdate exampleLibs
                 (fst (alertUpdate exampleLibs (alert ?m0)
                    (ConfirmActionMsg OperationDelete ''x''))) (KeyMsg ''?'')),
             operationInProgress := True, operationStatus := ''Deleting...'',
             modal := Some (createHelpModal exampleLibs)\<rparr>"
    using h0 by (simp add: m2_def m1 Update_help_key ret_def)
  have h: "modal m2 = Some (createHelpModal exampleLibs)"
    and p: "operationInProgress m2" and s: "operationStatus m2 = ''Deleting...''"
    by (simp_all add: e2)
  have d: "runPerformDockerOperation exampleWorld OperationDelete ''x''
     = dockerOperationResult OperationDelete ''x'' True None"
    by (simp add: runPerformDockerOperation_def exampleWorld_def)
  have r3: "run exampleLibs ?m0
      [(exampleWorld, ConfirmActionMsg OperationDelete ''x''), (exampleWorld, KeyMsg ''?''),
       (exampleWorld, dockerOperationResult OperationDelete ''x'' True None)]
     = newModel (Update exampleLibs exampleWorld m2
         (dockerOperationResult OperationDelete ''x'' True None))"
    by (simp add: m2_def)
  have c: "snd (modalUpdate exampleLibs (createHelpModal exampleLibs)
         (dockerOperationResult OperationDelete ''x'' True None)) = CmdNil"
    "libCmd (snd (alertUpdate exampleLibs (alert m2)
         (dockerOperationResult OperationDelete ''x'' True None))) = CmdNil"
    by (simp_all add: exampleLibs_def libCmd_def)
  note T = delete_result_lost_under_modal [OF h, of exampleLibs exampleWorld "''x''" exampleWorld 0]
  note T2 = T [THEN conjunct2]
  note T4 = T2 [THEN conjunct2, THEN conjunct2]
  note T5 = T4 [THEN conjunct2]
  from T2 [THEN conjunct1] T4 [THEN conjunct1] T5 [THEN conjunct1] T5 [THEN conjunct2] h p s d
  show ?thesis
    unfolding r3 m2_def [symmetric] by (simp add: c)
qed

subsection \<open>The first-run predicate under Bedrock\<close>

text \<open>
  C10. If the configuration file exists and \<open>bedrock.enabled\<close> is true, and neither
  \<open>wizard.always_run\<close> nor \<open>wizard.resume_after_auth\<close> is set, the first-run predicate is
  false and the constructor leaves wizard mode off, whatever the credentials path and
  file are: the world is arbitrary beyond the four hypotheses.
\<close>

theorem bedrock_skips_credential_check:
  assumes "Stat w (ConfigFile L w) = StatOk"
    and "GetBool w ''bedrock.enabled''"
    and "\<not> GetBool w ''wizard.always_run''"
    and "\<not> GetBool w ''wizard.resume_after_auth''"
  shows "isFirstRun L w = False
       \<and> wizardMode (NewWithCache L w prefix cached) = False"
  using assms
  by (simp add: isFirstRun_def NewWithCache_def Let_def split: option.splits)


text \<open>A world with a configuration file, Bedrock enabled and no credentials file.\<close>

theorem bedrock_witness:
  "Stat bedrockWorld (ConfigFile exampleLibs bedrockWorld) = StatOk
   \<and> GetBool bedrockWorld ''bedrock.enabled''
   \<and> \<not> GetBool bedrockWorld ''wizard.always_run''
   \<and> \<not> GetBool bedrockWorld ''wizard.resume_after_auth''
   \<and> Stat bedrockWorld ''/home/u/.maestro/.claude/.credentials.json'' = StatNotExist
   \<and> isFirstRun exampleLibs bedrockWorld = False
   \<and> wizardMode (NewWithCache exampleLibs bedrockWorld ''maestro-'' None) = False"
proof -
  have c: "ConfigFile exampleLibs bedrockWorld = ''/home/u/.maestro/config.yml''"
    by (simp add: ConfigFile_def GetConfigDir_def bedrockWorld_def exampleWorld_def
          exampleLibs_def)
  have h1: "Stat bedrockWorld (ConfigFile exampleLibs bedrockWorld) = StatOk"
    unfolding c by (simp add: bedrockWorld_def)
  have h2: "GetBool bedrockWorld ''bedrock.enabled''"
    and h3: "\<not> GetBool bedrockWorld ''wizard.always_run''"
    and h4: "\<not> GetBool bedrockWorld ''wizard.resume_after_auth''"
    and h5: "Stat bedrockWorld ''/home/u/.maestro/.claude/.credentials.json'' = StatNotExist"
    by (simp_all add: bedrockWorld_def)
  from bedrock_skips_credential_check [OF h1 h2 h3 h4, of "''maestro-''" None] h1 h2 h3 h4 h5
  show ?thesis by simp
qed

subsection \<open>The prerequisite check step\<close>

text \<open>
  Four of the places where the handler enters wizard step 1 (Next at step 0, Prev at
  step 2, Enter after the opening animation, the first resize of a wizard that is at
  step 1 without a modal) put the placeholder modal on screen, whose content starts with
  "Checking Prerequisites..." and which has no action, and schedule the prerequisite
  check. When the check's result message arrives, in any state, the modal is replaced by
  the results modal, which has exactly one action: Continue, returning the next-step
  message, when both checks passed, and Exit, returning the exit-wizard message,
  otherwise.
\<close>

lemma prerequisite_entries:
  fixes L w m
  defines "upd \<equiv> Update L w m"
    and "al \<equiv> \<lambda>msg. alertUpdate L (alert m) msg"
  shows
    "(wizardStep m = 0 \<longrightarrow>
        upd wizardNextStepMsg =
          ret (m\<lparr>alert := fst (al wizardNextStepMsg), wizardStep := 1,
                 modal := Some createPrerequisiteCheckModal\<rparr>)
              (Batch [libCmd (snd (al wizardNextStepMsg)), checkPrerequisites]))
   \<and> (wizardStep m = 2 \<longrightarrow>
        upd wizardPrevStepMsg =
          ret (m\<lparr>alert := fst (al wizardPrevStepMsg), wizardStep := 1,
                 modal := Some createPrerequisiteCheckModal\<rparr>)
              (Batch [libCmd (snd (al wizardPrevStepMsg)), checkPrerequisites]))
   \<and> (wizardMode m \<and> animationComplete m \<and> wizardStep m = 0 \<and> modal m = None \<longrightarrow>
        upd (KeyMsg ''enter'') =
          ret (m\<lparr>alert := fst (al (KeyMsg ''enter'')), wizardStep := 1,
                 modal := Some createPrerequisiteCheckModal\<rparr>)
              checkPrerequisites)
   \<and> (wizardMode m \<and> wizardStep m = 1 \<and> modal m = None \<longrightarrow>
        modal (newModel (upd (WindowSizeMsg wd ht))) = Some createPrerequisiteCheckModal
      \<and> cmd (upd (WindowSizeMsg wd ht)) = checkPrerequisites)
   \<and> hasPrefix (Content createPrerequisiteCheckModal) ''Checking Prerequisites...''
   \<and> Actions createPrerequisiteCheckModal = []
   \<and> upd (prerequisiteCheckResult ca cm da dm) =
        ret (m\<lparr>alert := fst (al (prerequisiteCheckResult ca cm da dm)),
               modal := Some (prerequisiteResultsModal ca cm da dm)\<rparr>)
            (libCmd (snd (al (prerequisiteCheckResult ca cm da dm))))
   \<and> Actions (prerequisiteResultsModal ca cm da dm) =
        (if ca \<and> da then [action ''Continue'' ''enter'' True (Returns wizardNextStepMsg)]
         else [action ''Exit'' ''enter'' False (Returns exitWizardMsg)])
   \<and> callOnSelect (prerequisiteResultsModal ca cm da dm)
        (OnSelect (hd (Actions (prerequisiteResultsModal ca cm da dm)))) =
        Some (if ca \<and> da then wizardNextStepMsg else exitWizardMsg)"
  unfolding upd_def al_def
  by (auto simp add: Update_defs getWizardModal_def createPrerequisiteCheckModal_def
        prerequisiteResultsModal_def zeroModal_def callOnSelect_def action_def
        prerequisiteCheckingContent_def rawString_def hasPrefix_def
        split: option.splits)



subsection \<open>The cursor after a list refresh\<close>

text \<open>Facts about the cursor loop, the status bar and the list-loaded case.\<close>

lemma sint_of_nat_small: "k < 2 ^ 63 \<Longrightarrow> sint (of_nat k :: 64 word) = int k"
proof -
  assume k: "k < 2 ^ 63"
  have "(of_nat k :: 64 word) = word_of_int (int k)" by simp
  then have "sint (of_nat k :: 64 word) = signed_take_bit 63 (int k)"
    by (simp only: sint_sbintrunc') simp
  also have "\<dots> = int k"
    using k by (intro signed_take_bit_int_eq_self) auto
  finally show ?thesis .
qed

lemma restoreCursor_absent:
  "n \<notin> Name ` set cs \<Longrightarrow> restoreCursor h n cs i = h"
  by (induction cs arbitrary: i) auto

lemma restoreCursor_found:
  "n \<in> Name ` set cs \<Longrightarrow>
     \<exists>k<length cs. restoreCursor h n cs i = SetCursor h (i + of_nat k)
        \<and> Name (cs ! k) = n \<and> (\<forall>j<k. Name (cs ! j) \<noteq> n)"
proof (induction cs arbitrary: i)
  case Nil
  then show ?case by simp
next
  case (Cons c cs)
  show ?case
  proof (cases "Name c = n")
    case True
    then show ?thesis by (intro exI [of _ 0]) simp
  next
    case False
    with Cons.prems have "n \<in> Name ` set cs" by auto
    from Cons.IH [OF this, of "i + 1"] obtain k where k: "k < length cs"
      "restoreCursor h n cs (i + 1) = SetCursor h (i + 1 + of_nat k)"
      "Name (cs ! k) = n" "\<forall>j<k. Name (cs ! j) \<noteq> n" by blast
    show ?thesis
    proof (intro exI [of _ "Suc k"] conjI allI impI)
      show "Suc k < length (c # cs)" using k by simp
      show "restoreCursor h n (c # cs) i = SetCursor h (i + of_nat (Suc k))"
        using False k by (simp add: ac_simps)
      show "Name ((c # cs) ! Suc k) = n" using k by simp
      fix j assume "j < Suc k"
      then show "Name ((c # cs) ! j) \<noteq> n" using False k by (cases j) auto
    qed
  qed
qed

lemma updateStatusBar_fields [simp]:
  "homeView (updateStatusBar L w m) = homeView m"
  "modal (updateStatusBar L w m) = modal m"
  "ready (updateStatusBar L w m) = ready m"
  "operationStatus (updateStatusBar L w m) = operationStatus m"
  "operationInProgress (updateStatusBar L w m) = operationInProgress m"
  "containerCount (updateStatusBar L w m) = containerCount m"
  "containerPrefix (updateStatusBar L w m) = containerPrefix m"
  "wizardStep (updateStatusBar L w m) = wizardStep m"
  "wizardMode (updateStatusBar L w m) = wizardMode m"
  "(updateStatusBar L w m)\<lparr>statusbar := s\<rparr> = m\<lparr>statusbar := s\<rparr>"
  by (simp_all add: updateStatusBar_def Let_def split del: if_split)

lemma selectedContainerName_alert [simp]:
  "selectedContainerName (m\<lparr>alert := a\<rparr>) = selectedContainerName m"
  by (simp add: selectedContainerName_def)

lemma Update_containersLoaded:
  "modal m = None \<Longrightarrow>
   Update L w m (containersLoadedMsg cs err) =
     (let n = selectedContainerName m;
          h0 = NewHomeModel cs False;
          h1 = (if 0 < sint (width m) \<and> 0 < sint (height m) then
                  SetSize h0 (width m) (height m - 9) else h0);
          h2 = (if n \<noteq> [] then restoreCursor h1 n cs 0 else h1);
          m2 = updateStatusBar L w
                 (m\<lparr>alert := fst (alertUpdate L (alert m) (containersLoadedMsg cs err)),
                    homeView := Some h2, loading := False, operationStatus := ''Ready'',
                    containerCount := of_nat (length cs)\<rparr>)
      in if ready m then ret m2 CmdNil
         else ret (m2\<lparr>ready := True\<rparr>)
                (NewAlertCmd ''Success''
                   (''Loaded '' @ fmtInt L (of_nat (length cs)) @ '' containers'')))"
  by (simp add: Update_defs split del: if_split cong: if_cong)

text \<open>
  C3, as stated, fails in two ways. With the help modal on screen and the container \<open>b\<close>
  selected at index 1, the list-loaded message with the list \<open>[b, a]\<close> goes to the modal:
  the home view keeps the old list and the cursor stays at 1, while \<open>b\<close> is at index 0 of
  the new list. And without a modal, when the selected container's name is the empty
  string (the handler's value for "no selection"), the cursor is reset to 0 although the
  container of that name is at index 1 of the new list.
\<close>

theorem cursor_after_refresh_counterexample:
  "validSelection ((exampleModel [exampleInfo ''a'', exampleInfo ''b''] 1)
      \<lparr>modal := Some (createHelpModal exampleLibs)\<rparr>)
   \<and> selectedContainerName ((exampleModel [exampleInfo ''a'', exampleInfo ''b''] 1)
      \<lparr>modal := Some (createHelpModal exampleLibs)\<rparr>) = ''b''
   \<and> Name ([exampleInfo ''b'', exampleInfo ''a''] ! 0) = ''b''
   \<and> map_option GetContainers (homeView (newModel (Update exampleLibs exampleWorld
        ((exampleModel [exampleInfo ''a'', exampleInfo ''b''] 1)
           \<lparr>modal := Some (createHelpModal exampleLibs)\<rparr>)
        (containersLoadedMsg [exampleInfo ''b'', exampleInfo ''a''] None))))
      = Some [exampleInfo ''a'', exampleInfo ''b'']
   \<and> map_option GetCursor (homeView (newModel (Update exampleLibs exampleWorld
        ((exampleModel [exampleInfo ''a'', exampleInfo ''b''] 1)
           \<lparr>modal := Some (createHelpModal exampleLibs)\<rparr>)
        (containersLoadedMsg [exampleInfo ''b'', exampleInfo ''a''] None))))
      = Some 1
   \<and> validSelection (exampleModel [exampleInfo ''a'', exampleInfo ''''] 1)
   \<and> modal (exampleModel [exampleInfo ''a'', exampleInfo ''''] 1) = None
   \<and> map_option GetCursor (homeView (exampleModel [exampleInfo ''a'', exampleInfo ''''] 1))
      = Some 1
   \<and> map Name (GetContainers (the (homeView
        (exampleModel [exampleInfo ''a'', exampleInfo ''''] 1)))) = [''a'', []]
   \<and> map Name [exampleInfo ''a'', exampleInfo ''''] = [''a'', []]
   \<and> map_option GetCursor (homeView (newModel (Update exampleLibs exampleWorld
        (exampleModel [exampleInfo ''a'', exampleInfo ''''] 1)
        (containersLoadedMsg [exampleInfo ''a'', exampleInfo ''''] None))))
      = Some 0"
proof -
  let ?m = "(exampleModel [exampleInfo ''a'', exampleInfo ''b''] 1)
      \<lparr>modal := Some (createHelpModal exampleLibs)\<rparr>"
  let ?e = "exampleModel [exampleInfo ''a'', exampleInfo ''''] 1"
  have mo: "modal ?m = Some (createHelpModal exampleLibs)" by simp
  have v: "validSelection ?m" "selectedContainerName ?m = ''b''"
    by (simp_all add: exampleModel_def validSelection_def selectedContainerName_def
          GetCursor_def GetContainers_def exampleInfo_def)
  have h: "homeView (newModel (Update exampleLibs exampleWorld ?m
        (containersLoadedMsg [exampleInfo ''b'', exampleInfo ''a''] None)))
      = Some \<lparr> containers = [exampleInfo ''a'', exampleInfo ''b''], cursor = 1,
               hmWidth = 80, hmHeight = 15 \<rparr>"
    by (simp add: Update_modal_active(1) [OF mo] ret_def) (simp add: exampleModel_def)
  have n: "modal ?e = None" and rd: "ready ?e" by (simp_all add: exampleModel_def)
  have ve: "validSelection ?e" "selectedContainerName ?e = []"
    "GetContainers (the (homeView ?e)) = [exampleInfo ''a'', exampleInfo '''']"
    "map_option GetCursor (homeView ?e) = Some 1"
    by (simp_all add: exampleModel_def validSelection_def selectedContainerName_def
          GetCursor_def GetContainers_def exampleInfo_def)
  have w: "0 < sint (width ?e)" "0 < sint (height ?e)" by (simp_all add: exampleModel_def)
  have he: "map_option GetCursor (homeView (newModel (Update exampleLibs exampleWorld ?e
        (containersLoadedMsg [exampleInfo ''a'', exampleInfo ''''] None)))) = Some 0"
    using rd w
    by (simp add: Update_containersLoaded [OF n] ve(2) Let_def ret_def
          NewHomeModel_def SetSize_def GetCursor_def)
  from v h n ve he show ?thesis
    by (simp add: GetContainers_def GetCursor_def exampleInfo_def)
qed

text \<open>
  C3, amended. For every state with a valid selection whose selected container has a
  non-empty name, and every list-loaded message that arrives while no modal is active:
  after the refresh the home view holds the new list; if a container with the name of
  the previously selected container is in the new list, the cursor is the index of the
  first container of that name; otherwise the cursor is at the default, \<open>0\<close>, or \<open>-1\<close> if
  the list is empty. In both cases the cursor is \<open>-1\<close> or a valid index. The list is a Go
  slice, shorter than \<open>2^63\<close>.
\<close>

theorem cursor_after_refresh:
  assumes "modal m = None" and "validSelection m" and "selectedContainerName m \<noteq> []"
    and "length cs < 2 ^ 63"
  defines "n \<equiv> selectedContainerName m"
  shows "\<exists>h. homeView (newModel (Update L w m (containersLoadedMsg cs err))) = Some h
           \<and> GetContainers h = cs
           \<and> (n \<in> Name ` set cs \<longrightarrow>
                (\<exists>i<length cs. GetCursor h = of_nat i \<and> Name (cs ! i) = n
                    \<and> (\<forall>j<i. Name (cs ! j) \<noteq> n)))
           \<and> (n \<notin> Name ` set cs \<longrightarrow> GetCursor h = (if cs = [] then - 1 else 0))
           \<and> validCursor h"
proof -
  define h1 where "h1 = (if 0 < sint (width m) \<and> 0 < sint (height m) then
      SetSize (NewHomeModel cs False) (width m) (height m - 9) else NewHomeModel cs False)"
  have ne: "n \<noteq> []" using assms(3) by (simp add: n_def)
  have c1: "containers h1 = cs" and cur1: "cursor h1 = (if cs = [] then - 1 else 0)"
    by (simp_all add: h1_def NewHomeModel_def SetSize_def)
  have hv: "homeView (newModel (Update L w m (containersLoadedMsg cs err)))
      = Some (restoreCursor h1 n cs 0)"
    using assms(1) ne
    by (simp add: Update_containersLoaded Let_def ret_def h1_def n_def)
  show ?thesis
  proof (cases "n \<in> Name ` set cs")
    case True
    from restoreCursor_found [OF True, of h1 0] obtain k where k: "k < length cs"
      "restoreCursor h1 n cs 0 = SetCursor h1 (of_nat k)" "Name (cs ! k) = n"
      "\<forall>j<k. Name (cs ! j) \<noteq> n" by auto
    have sk: "sint (of_nat k :: 64 word) = int k"
      using k(1) assms(4) by (intro sint_of_nat_small) simp
    have sc: "SetCursor h1 (of_nat k) = h1\<lparr>cursor := of_nat k\<rparr>"
      using k(1) by (simp add: SetCursor_def c1 sk)
    show ?thesis
      using True k sk
      by (intro exI [of _ "h1\<lparr>cursor := of_nat k\<rparr>"])
         (auto simp add: hv sc GetContainers_def GetCursor_def c1 validCursor_def)
  next
    case False
    have "restoreCursor h1 n cs 0 = h1" by (rule restoreCursor_absent [OF False])
    then show ?thesis
      using False
      by (intro exI [of _ h1])
         (auto simp add: hv GetContainers_def GetCursor_def c1 cur1 validCursor_def)
  qed
qed

text \<open>
  The container \<open>b\<close> selected; it moves to index 1, it disappears, the list becomes empty.
\<close>

theorem cursor_after_refresh_witness:
  "modal (exampleModel [exampleInfo ''a'', exampleInfo ''b''] 1) = None
   \<and> validSelection (exampleModel [exampleInfo ''a'', exampleInfo ''b''] 1)
   \<and> selectedContainerName (exampleModel [exampleInfo ''a'', exampleInfo ''b''] 1) = ''b''
   \<and> (\<exists>h. homeView (newModel (Update exampleLibs exampleWorld
          (exampleModel [exampleInfo ''a'', exampleInfo ''b''] 1)
          (containersLoadedMsg [exampleInfo ''c'', exampleInfo ''b''] None))) = Some h
        \<and> GetCursor h = 1)
   \<and> (\<exists>h. homeView (newModel (Update exampleLibs exampleWorld
          (exampleModel [exampleInfo ''a'', exampleInfo ''b''] 1)
          (containersLoadedMsg [exampleInfo ''c''] None))) = Some h
        \<and> GetCursor h = 0)
   \<and> (\<exists>h. homeView (newModel (Update exampleLibs exampleWorld
          (exampleModel [exampleInfo ''a'', exampleInfo ''b''] 1)
          (containersLoadedMsg [] None))) = Some h
        \<and> GetCursor h = - 1)"
proof -
  let ?m = "exampleModel [exampleInfo ''a'', exampleInfo ''b''] 1"
  have h1: "modal ?m = None" by (simp add: exampleModel_def)
  have h2: "validSelection ?m"
    by (simp add: exampleModel_def validSelection_def GetCursor_def GetContainers_def)
  have n: "selectedContainerName ?m = ''b''"
    by (simp add: exampleModel_def selectedContainerName_def GetCursor_def GetContainers_def
          exampleInfo_def)
  have h3: "selectedContainerName ?m \<noteq> []" by (simp add: n)
  have l: "length [exampleInfo ''c'', exampleInfo ''b''] < 2 ^ 63"
    "length [exampleInfo ''c''] < 2 ^ 63" "length ([] :: Info list) < 2 ^ 63"
    by simp_all
  have a: "\<exists>h. homeView (newModel (Update exampleLibs exampleWorld ?m
          (containersLoadedMsg [exampleInfo ''c'', exampleInfo ''b''] None))) = Some h
        \<and> GetCursor h = 1"
  proof -
    have "''b'' \<in> Name ` set [exampleInfo ''c'', exampleInfo ''b'']"
      by (simp add: exampleInfo_def)
    with cursor_after_refresh [OF h1 h2 h3 l(1), of exampleLibs exampleWorld None]
    obtain h i where h: "homeView (newModel (Update exampleLibs exampleWorld ?m
          (containersLoadedMsg [exampleInfo ''c'', exampleInfo ''b''] None))) = Some h"
      and i: "i < length [exampleInfo ''c'', exampleInfo ''b'']" "GetCursor h = of_nat i"
        "Name ([exampleInfo ''c'', exampleInfo ''b''] ! i) = ''b''"
      unfolding n by blast
    from i(1,3) have "i = 1"
      by (cases i) (simp_all add: exampleInfo_def)
    with h i(2) show ?thesis by simp
  qed
  from cursor_after_refresh [OF h1 h2 h3 l(2), of exampleLibs exampleWorld None]
  have b: "\<exists>h. homeView (newModel (Update exampleLibs exampleWorld ?m
          (containersLoadedMsg [exampleInfo ''c''] None))) = Some h \<and> GetCursor h = 0"
    unfolding n by (auto simp add: exampleInfo_def)
  from cursor_after_refresh [OF h1 h2 h3 l(3), of exampleLibs exampleWorld None]
  have c: "\<exists>h. homeView (newModel (Update exampleLibs exampleWorld ?m
          (containersLoadedMsg [] None))) = Some h \<and> GetCursor h = - 1"
    unfolding n by auto
  from h1 h2 n a b c show ?thesis by blast
qed

subsection \<open>A failed enumeration\<close>

text \<open>
  C2, as stated, fails: the home view holds the container \<open>a\<close>; the enumeration task
  fails in the registry; after its message the home view holds the empty list.
\<close>

theorem enumeration_failure_counterexample:
  "map_option GetContainers (homeView (exampleModel [exampleInfo ''a''] 0))
     = Some [exampleInfo ''a'']
   \<and> GetAllContainers (exampleWorld\<lparr>GetAllContainers := (\<lambda>p. Inl ''cannot connect'')\<rparr>)
        ''maestro-'' = Inl ''cannot connect''
   \<and> map_option GetContainers (homeView (newModel
        (Update exampleLibs exampleWorld (exampleModel [exampleInfo ''a''] 0)
           (runLoadContainers
              (exampleWorld\<lparr>GetAllContainers := (\<lambda>p. Inl ''cannot connect'')\<rparr>)
              ''maestro-''))))
     = Some []"
  by (simp add: Update_containersLoaded runLoadContainers_def exampleModel_def
        GetContainers_def NewHomeModel_def SetSize_def selectedContainerName_def
        GetCursor_def exampleInfo_def ret_def Let_def)

text \<open>
  C2, amended. When the container enumeration fails, the task reports an empty list and
  no error. In a ready state without a modal the controller then replaces the list of
  the home view by the empty list (the last known Session is not kept; the cursor is
  \<open>-1\<close>, the count 0), surfaces no error (no modal, no toast, no effect, status Ready),
  and the next refresh tick reschedules itself and, unless an operation is in progress,
  schedules the enumeration again.
\<close>

theorem enumeration_failure_empties_list:
  fixes L w m w' e w2 t
  assumes "GetAllContainers w' (containerPrefix m) = Inl e"
    and "modal m = None" and "ready m"
  defines "r \<equiv> Update L w m (runLoadContainers w' (containerPrefix m))"
  shows "runLoadContainers w' (containerPrefix m) = containersLoadedMsg [] None
       \<and> (\<exists>h. homeView (newModel r) = Some h \<and> GetContainers h = [] \<and> GetCursor h = - 1)
       \<and> modal (newModel r) = None
       \<and> cmd r = CmdNil
       \<and> effects r = []
       \<and> operationStatus (newModel r) = ''Ready''
       \<and> containerCount (newModel r) = 0
       \<and> refreshTick \<in> set (tasks (cmd (Update L w2 (newModel r) (refreshTickMsg t))))
       \<and> (\<not> operationInProgress m \<longrightarrow>
            LoadContainers (containerPrefix m)
              \<in> set (tasks (cmd (Update L w2 (newModel r) (refreshTickMsg t)))))"
proof -
  have msg: "runLoadContainers w' (containerPrefix m) = containersLoadedMsg [] None"
    using assms(1) by (simp add: runLoadContainers_def)
  have r: "r = ret (updateStatusBar L w
        (m\<lparr>alert := fst (alertUpdate L (alert m) (containersLoadedMsg [] None)),
           homeView := Some ((if 0 < sint (width m) \<and> 0 < sint (height m) then
               SetSize (NewHomeModel [] False) (width m) (height m - 9)
             else NewHomeModel [] False)),
           loading := False, operationStatus := ''Ready'', containerCount := 0\<rparr>)) CmdNil"
    using assms(2,3)
    by (simp add: r_def msg Update_containersLoaded Let_def)
  show ?thesis
    unfolding r msg
    using assms(2)
    by (simp add: ret_def Let_def GetContainers_def GetCursor_def
          NewHomeModel_def SetSize_def Update_def updateLifecycle_def loadContainers_def)
qed

text \<open>The failing registry of the counterexample.\<close>

theorem enumeration_failure_witness:
  "GetAllContainers (exampleWorld\<lparr>GetAllContainers := (\<lambda>p. Inl ''cannot connect'')\<rparr>)
     (containerPrefix (exampleModel [exampleInfo ''a''] 0)) = Inl ''cannot connect''
   \<and> modal (exampleModel [exampleInfo ''a''] 0) = None
   \<and> ready (exampleModel [exampleInfo ''a''] 0)
   \<and> cmd (Update exampleLibs exampleWorld (exampleModel [exampleInfo ''a''] 0)
        (runLoadContainers
           (exampleWorld\<lparr>GetAllContainers := (\<lambda>p. Inl ''cannot connect'')\<rparr>)
           (containerPrefix (exampleModel [exampleInfo ''a''] 0)))) = CmdNil
   \<and> operationStatus (newModel (Update exampleLibs exampleWorld
        (exampleModel [exampleInfo ''a''] 0)
        (runLoadContainers
           (exampleWorld\<lparr>GetAllContainers := (\<lambda>p. Inl ''cannot connect'')\<rparr>)
           (containerPrefix (exampleModel [exampleInfo ''a''] 0))))) = ''Ready''"
proof -
  have h1: "GetAllContainers (exampleWorld\<lparr>GetAllContainers := (\<lambda>p. Inl ''cannot connect'')\<rparr>)
     (containerPrefix (exampleModel [exampleInfo ''a''] 0)) = Inl ''cannot connect''"
    by simp
  have h2: "modal (exampleModel [exampleInfo ''a''] 0) = None"
    and h3: "ready (exampleModel [exampleInfo ''a''] 0)"
    by (simp_all add: exampleModel_def)
  from enumeration_failure_empties_list [OF h1 h2 h3, of exampleLibs exampleWorld] h1 h2 h3
  show ?thesis by blast
qed

subsection \<open>What the handler reads and writes\<close>

text \<open>The two switches, one message type at a time.\<close>

lemma readsWorld_alert [simp]: "readsWorld (m\<lparr>alert := a\<rparr>) msg = readsWorld m msg"
  by (cases msg) (simp_all add: readsWorld_def)

lemma updateLifecycle_world:
  "\<not> readsWorld m msg \<Longrightarrow> updateLifecycle L w1 m c msg = updateLifecycle L w2 m c msg"
  by (cases msg)
     (simp_all add: readsWorld_def updateLifecycle_def getWizardModal_def Let_def
        split del: if_split cong: if_cong)

lemma updateLifecycle_effects:
  "\<not> readsWorld m msg \<Longrightarrow> updateLifecycle L w m c msg = Some r \<Longrightarrow> effects r = []"
  by (cases msg)
     (auto simp add: readsWorld_def updateLifecycle_def Let_def ret_def)

lemma updateLifecycle_None:
  "updateLifecycle L w m c msg = None \<Longrightarrow>
     readsWorld m msg =
       (if wizardMode m \<and> isQuitKey msg then False
        else if modal m \<noteq> None then False
        else (case msg of
                WindowSizeMsg wd ht \<Rightarrow> wizardMode m \<and> wizardStep m = 3
              | containersLoadedMsg cs err \<Rightarrow> True
              | saveSettingsMsg memory cpus showNag autoRefresh notifications \<Rightarrow> True
              | saveFirewallMsg domainsText applyToRunning \<Rightarrow> True
              | KeyMsg k \<Rightarrow> k = ''i'' \<or> k = ''s'' \<or> k = ''f''
              | _ \<Rightarrow> False))"
  by (cases msg) (simp_all add: readsWorld_def updateLifecycle_def)

lemma updateMain_world:
  assumes "modal m = None"
    and "\<not> (case msg of
                WindowSizeMsg wd ht \<Rightarrow> wizardMode m \<and> wizardStep m = 3
              | containersLoadedMsg cs err \<Rightarrow> True
              | saveSettingsMsg memory cpus showNag autoRefresh notifications \<Rightarrow> True
              | saveFirewallMsg domainsText applyToRunning \<Rightarrow> True
              | KeyMsg k \<Rightarrow> k = ''i'' \<or> k = ''s'' \<or> k = ''f''
              | _ \<Rightarrow> False)"
  shows "updateMain L w1 m msg = updateMain L w2 m msg"
  using assms
  by (cases msg)
     (simp_all add: updateMain_def getWizardModal_def Let_def split del: if_split
        cong: if_cong option.case_cong sum.case_cong)

lemma outcome_ret [simp]:
  "newModel (ret m c) = m" "cmd (ret m c) = c" "effects (ret m c) = []"
  "newModel (retEff m c es) = m" "cmd (retEff m c es) = c" "effects (retEff m c es) = es"
  by (simp_all add: ret_def retEff_def)

lemma updateMain_effects:
  assumes "\<not> (case msg of
                WindowSizeMsg wd ht \<Rightarrow> wizardMode m \<and> wizardStep m = 3
              | containersLoadedMsg cs err \<Rightarrow> True
              | saveSettingsMsg memory cpus showNag autoRefresh notifications \<Rightarrow> True
              | saveFirewallMsg domainsText applyToRunning \<Rightarrow> True
              | KeyMsg k \<Rightarrow> k = ''i'' \<or> k = ''s'' \<or> k = ''f''
              | _ \<Rightarrow> False)"
  shows "case updateMain L w m msg of None \<Rightarrow> True | Some r \<Rightarrow> effects r = []"
  using assms
  by (cases msg) (simp_all add: updateMain_def Let_def handleContainerAction_def)
lemma Update_saveSettings:
  "modal m = None \<Longrightarrow> WriteConfig w = None \<Longrightarrow> memory \<noteq> [] \<Longrightarrow> cpus \<noteq> [] \<Longrightarrow>
   Update L w m (saveSettingsMsg memory cpus showNag autoRefresh notifications) =
     retEff (m\<lparr>alert := fst (alertUpdate L (alert m)
                  (saveSettingsMsg memory cpus showNag autoRefresh notifications)),
               modal := None\<rparr>)
       (NewAlertCmd ''Success'' ''Settings saved successfully'')
       [ViperSet ''containers.resources.memory'' (VString memory),
        ViperSet ''containers.resources.cpus'' (VString cpus),
        ViperSet ''daemon.show_nag'' (VBool showNag),
        ViperSet ''daemon.token_refresh.enabled'' (VBool autoRefresh),
        ViperSet ''daemon.notifications.enabled'' (VBool notifications),
        ViperWriteConfig]"
  by (simp add: Update_defs split del: if_split cong: if_cong)

text \<open>
  C1, as stated, fails: the same state and the same list-loaded message give two
  different states at two times of the clock (the status bar holds the time); and on
  the save-settings message the handler itself writes the configuration, while the only
  task it emits is the toast.
\<close>

theorem update_reads_world_counterexample:
  "sbTimeText (statusbar (newModel (Update exampleLibs exampleWorld
      (exampleModel [] (- 1)) (containersLoadedMsg [] None)))) = ''12:00''
   \<and> sbTimeText (statusbar (newModel (Update exampleLibs (exampleWorld\<lparr>nowHHMM := ''12:01''\<rparr>)
      (exampleModel [] (- 1)) (containersLoadedMsg [] None)))) = ''12:01''
   \<and> newModel (Update exampleLibs exampleWorld
        (exampleModel [] (- 1)) (containersLoadedMsg [] None))
     \<noteq> newModel (Update exampleLibs (exampleWorld\<lparr>nowHHMM := ''12:01''\<rparr>)
        (exampleModel [] (- 1)) (containersLoadedMsg [] None))
   \<and> effects (Update exampleLibs exampleWorld (exampleModel [] (- 1))
        (saveSettingsMsg ''8g'' ''4'' True True True))
     = [ViperSet ''containers.resources.memory'' (VString ''8g''),
        ViperSet ''containers.resources.cpus'' (VString ''4''),
        ViperSet ''daemon.show_nag'' (VBool True),
        ViperSet ''daemon.token_refresh.enabled'' (VBool True),
        ViperSet ''daemon.notifications.enabled'' (VBool True),
        ViperWriteConfig]
   \<and> tasks (cmd (Update exampleLibs exampleWorld (exampleModel [] (- 1))
        (saveSettingsMsg ''8g'' ''4'' True True True)))
     = [NewAlertCmd ''Success'' ''Settings saved successfully'']"
proof -
  let ?m = "exampleModel [] (- 1)"
  have mn: "modal ?m = None" and rd: "ready ?m" by (simp_all add: exampleModel_def)
  have t: "\<And>w. sbTimeText (statusbar (newModel (Update exampleLibs w ?m
      (containersLoadedMsg [] None)))) = nowHHMM w"
    using rd by (simp add: Update_containersLoaded [OF mn] Let_def ret_def updateStatusBar_def
          split del: if_split)
  have t1: "sbTimeText (statusbar (newModel (Update exampleLibs exampleWorld ?m
      (containersLoadedMsg [] None)))) = ''12:00''"
    by (simp add: t exampleWorld_def)
  have t2: "sbTimeText (statusbar (newModel (Update exampleLibs
      (exampleWorld\<lparr>nowHHMM := ''12:01''\<rparr>) ?m (containersLoadedMsg [] None)))) = ''12:01''"
    by (simp add: t)
  have ne: "newModel (Update exampleLibs exampleWorld ?m (containersLoadedMsg [] None))
     \<noteq> newModel (Update exampleLibs (exampleWorld\<lparr>nowHHMM := ''12:01''\<rparr>) ?m
          (containersLoadedMsg [] None))"
  proof
    assume "newModel (Update exampleLibs exampleWorld ?m (containersLoadedMsg [] None))
      = newModel (Update exampleLibs (exampleWorld\<lparr>nowHHMM := ''12:01''\<rparr>) ?m
          (containersLoadedMsg [] None))"
    then have "sbTimeText (statusbar (newModel (Update exampleLibs exampleWorld ?m
        (containersLoadedMsg [] None))))
      = sbTimeText (statusbar (newModel (Update exampleLibs
          (exampleWorld\<lparr>nowHHMM := ''12:01''\<rparr>) ?m (containersLoadedMsg [] None))))"
      by simp
    with t1 t2 show False by simp
  qed
  have w: "WriteConfig exampleWorld = None" by (simp add: exampleWorld_def)
  have s: "Update exampleLibs exampleWorld ?m (saveSettingsMsg ''8g'' ''4'' True True True)
     = retEff (?m\<lparr>alert := fst (alertUpdate exampleLibs (alert ?m)
                  (saveSettingsMsg ''8g'' ''4'' True True True)), modal := None\<rparr>)
       (NewAlertCmd ''Success'' ''Settings saved successfully'')
       [ViperSet ''containers.resources.memory'' (VString ''8g''),
        ViperSet ''containers.resources.cpus'' (VString ''4''),
        ViperSet ''daemon.show_nag'' (VBool True),
        ViperSet ''daemon.token_refresh.enabled'' (VBool True),
        ViperSet ''daemon.notifications.enabled'' (VBool True),
        ViperWriteConfig]"
    by (rule Update_saveSettings [OF mn w]) simp_all
  from t1 t2 ne show ?thesis
    by (simp add: s retEff_def)
qed

text \<open>
  C1, amended. The handler is a function of the state, the message and the world it
  reads. For every state and message whose case does not read the world (ticks, the
  refresh tick, the prerequisite result, a wizard step that does not arrive at Auth, a
  quit key in wizard mode, any message that goes to an active modal and, in the main
  view, resize, spinner ticks, connect, actions-menu and create requests, container
  actions, confirmations, operation results and the keys other than i, s and f), two
  invocations on the same state and message give the same new state and the same
  command in any two worlds, and the handler has no side effect of its own.
\<close>

theorem update_independent_of_world:
  assumes "\<not> readsWorld m msg"
  shows "Update L w1 m msg = Update L w2 m msg \<and> effects (Update L w1 m msg) = []"
proof -
  define a where "a = fst (alertUpdate L (alert m) msg)"
  define c where "c = libCmd (snd (alertUpdate L (alert m) msg))"
  define m1 where "m1 = m\<lparr>alert := a\<rparr>"
  have nr: "\<not> readsWorld m1 msg" using assms by (simp add: m1_def)
  have U: "\<And>w. Update L w m msg =
      (case updateLifecycle L w m1 c msg of
         Some r \<Rightarrow> r
       | None \<Rightarrow>
           if wizardMode m1 \<and> isQuitKey msg then
             ret (m1\<lparr>result := Some (zeroResult\<lparr>Action := ActionQuit\<rparr>)\<rparr>) Quit
           else
             (case modal m1 of
                Some mo \<Rightarrow>
                  ret (m1\<lparr>modal := fst (modalUpdate L mo msg)\<rparr>)
                      (Batch [snd (modalUpdate L mo msg), c])
              | None \<Rightarrow>
                  (case updateMain L w m1 msg of
                     Some r \<Rightarrow> r
                   | None \<Rightarrow>
                       (case homeView m1 of
                          None \<Rightarrow> ret m1 (Batch [CmdNil, c])
                        | Some h \<Rightarrow>
                            ret (m1\<lparr>homeView := Some (fst (homeUpdate L h msg))\<rparr>)
                                (Batch [snd (homeUpdate L h msg), c])))))"
    by (simp only: Update_def Let_def a_def c_def m1_def)
  have lc: "updateLifecycle L w1 m1 c msg = updateLifecycle L w2 m1 c msg"
    by (rule updateLifecycle_world [OF nr])
  show ?thesis
  proof (cases "updateLifecycle L w1 m1 c msg")
    case (Some r)
    from lc Some have "updateLifecycle L w2 m1 c msg = Some r" by simp
    with Some updateLifecycle_effects [OF nr Some] show ?thesis by (simp add: U)
  next
    case None
    note rw = updateLifecycle_None [OF None]
    show ?thesis
    proof (cases "wizardMode m1 \<and> isQuitKey msg")
      case True
      from lc None have n2: "updateLifecycle L w2 m1 c msg = None" by simp
      from True None n2 show ?thesis by (simp add: U ret_def)
    next
      case nq: False
      show ?thesis
      proof (cases "modal m1")
        case (Some mo)
        from lc None have n2: "updateLifecycle L w2 m1 c msg = None" by simp
        from Some None n2 nq show ?thesis by (auto simp add: U ret_def)
      next
        case mn: None
        from nr rw nq mn have cond: "\<not> (case msg of
                WindowSizeMsg wd ht \<Rightarrow> wizardMode m1 \<and> wizardStep m1 = 3
              | containersLoadedMsg cs err \<Rightarrow> True
              | saveSettingsMsg memory cpus showNag autoRefresh notifications \<Rightarrow> True
              | saveFirewallMsg domainsText applyToRunning \<Rightarrow> True
              | KeyMsg k \<Rightarrow> k = ''i'' \<or> k = ''s'' \<or> k = ''f''
              | _ \<Rightarrow> False)"
          by simp
        have mw: "updateMain L w1 m1 msg = updateMain L w2 m1 msg"
          by (rule updateMain_world [OF mn cond])
        show ?thesis
        proof (cases "updateMain L w1 m1 msg")
          case (Some r)
          from mw Some have s2: "updateMain L w2 m1 msg = Some r" by simp
          from lc None have n2: "updateLifecycle L w2 m1 c msg = None" by simp
          from None n2 nq mn Some s2 updateMain_effects [OF cond, of L w1] show ?thesis
            by (auto simp add: U)
        next
          case nm: None
          from mw nm have s2: "updateMain L w2 m1 msg = None" by simp
          from lc None have n2: "updateLifecycle L w2 m1 c msg = None" by simp
          from None n2 nq mn nm s2 show ?thesis
            by (auto simp add: U ret_def split: option.splits)
        qed
      qed
    qed
  qed
qed

text \<open>The refresh tick in two different worlds.\<close>

theorem update_independent_witness:
  "\<not> readsWorld (exampleModel [] (- 1)) (refreshTickMsg 0)
   \<and> Update exampleLibs exampleWorld (exampleModel [] (- 1)) (refreshTickMsg 0)
     = Update exampleLibs freshWorld (exampleModel [] (- 1)) (refreshTickMsg 0)
   \<and> effects (Update exampleLibs exampleWorld (exampleModel [] (- 1)) (refreshTickMsg 0)) = []"
proof -
  have h: "\<not> readsWorld (exampleModel [] (- 1)) (refreshTickMsg 0)"
    by (simp add: readsWorld_def)
  from update_independent_of_world [OF h, of exampleLibs exampleWorld freshWorld] h
  show ?thesis by blast
qed

subsection \<open>The range of the wizard step\<close>

text \<open>How one message and a sequence of messages move the wizard step.\<close>

lemma wizardStep_Update:
  "wizardStep (newModel (Update L w m msg)) =
     (case msg of
        wizardNextStepMsg \<Rightarrow> wizardStep m + 1
      | wizardPrevStepMsg \<Rightarrow> (if 1 < sint (wizardStep m) then wizardStep m - 1 else wizardStep m)
      | updateWizardConfigMsg a b \<Rightarrow> wizardStep m + 1
      | KeyMsg k \<Rightarrow> (if wizardMode m \<and> animationComplete m \<and> wizardStep m = 0 \<and> k = ''enter''
                        \<and> modal m = None then 1 else wizardStep m)
      | _ \<Rightarrow> wizardStep m)"
  by (cases msg)
     (auto simp add: Update_def updateLifecycle_def updateMain_def Let_def
        isQuitKey_def exitWizard_def handleContainerAction_def
        split: option.splits sum.splits)

lemma sint_add_one: "sint (x :: 64 word) < 2 ^ 63 - 1 \<Longrightarrow> sint (x + 1) = sint x + 1"
proof -
  assume a: "sint x < 2 ^ 63 - 1"
  have "- (2 ^ 63) \<le> sint x" using sint_ge [of x] by simp
  with a have "signed_take_bit 63 (sint x + 1) = sint x + 1"
    by (intro signed_take_bit_int_eq_self) auto
  then show ?thesis by (simp add: sint_word_add)
qed

lemma sint_sub_one: "- (2 ^ 63) < sint (x :: 64 word) \<Longrightarrow> sint (x - 1) = sint x - 1"
proof -
  assume a: "- (2 ^ 63) < sint x"
  have "sint x < 2 ^ 63" using sint_lt [of x] by simp
  with a have "signed_take_bit 63 (sint x - 1) = sint x - 1"
    by (intro signed_take_bit_int_eq_self) auto
  then show ?thesis by (simp add: sint_word_ariths)
qed

lemma wizardStep_bounds_Update:
  assumes "lb \<le> sint (wizardStep m)" and "sint (wizardStep m) < 2 ^ 63 - 1"
    and "lb \<le> 1 \<or> msg \<noteq> wizardPrevStepMsg"
  shows "lb \<le> sint (wizardStep (newModel (Update L w m msg)))
       \<and> sint (wizardStep (newModel (Update L w m msg))) \<le> sint (wizardStep m) + 1"
proof (cases msg)
  case wizardNextStepMsg
  with assms show ?thesis by (simp add: wizardStep_Update sint_add_one)
next
  case (updateWizardConfigMsg a b)
  with assms show ?thesis by (simp add: wizardStep_Update sint_add_one)
next
  case wizardPrevStepMsg
  show ?thesis
  proof (cases "1 < sint (wizardStep m)")
    case True
    then have "sint (wizardStep m - 1) = sint (wizardStep m) - 1"
      by (intro sint_sub_one) simp
    with True assms wizardPrevStepMsg show ?thesis by (simp add: wizardStep_Update)
  next
    case False
    with assms wizardPrevStepMsg show ?thesis by (simp add: wizardStep_Update)
  qed
next
  case (KeyMsg k)
  with assms show ?thesis by (auto simp add: wizardStep_Update)
qed (use assms in \<open>simp_all add: wizardStep_Update\<close>)

lemma run_wizardStep_bounds:
  "lb \<le> sint (wizardStep m) \<Longrightarrow> sint (wizardStep m) + int (length msgs) < 2 ^ 63 \<Longrightarrow>
   lb \<le> 1 \<or> wizardPrevStepMsg \<notin> snd ` set msgs \<Longrightarrow>
     lb \<le> sint (wizardStep (run L m msgs))
   \<and> sint (wizardStep (run L m msgs)) \<le> sint (wizardStep m) + int (length msgs)"
proof (induction msgs arbitrary: m)
  case Nil
  then show ?case by simp
next
  case (Cons x msgs)
  obtain w msg where x: "x = (w, msg)" by (cases x)
  let ?m = "newModel (Update L w m msg)"
  have b: "lb \<le> sint (wizardStep ?m) \<and> sint (wizardStep ?m) \<le> sint (wizardStep m) + 1"
    using Cons.prems x by (intro wizardStep_bounds_Update) auto
  have "lb \<le> sint (wizardStep (run L ?m msgs))
      \<and> sint (wizardStep (run L ?m msgs)) \<le> sint (wizardStep ?m) + int (length msgs)"
    using Cons.prems b x by (intro Cons.IH) auto
  with b x show ?case by simp
qed

lemma run_next: "wizardStep (run L m (replicate n (w, wizardNextStepMsg))) = wizardStep m + of_nat n"
  by (induction n arbitrary: m) (simp_all add: wizardStep_Update)

text \<open>
  What Next and Prev do to the step, and the range \<open>0..6\<close>: every message keeps the step
  in the range, unless it is a next-step or a configuration-update message that arrives
  at step 6.
\<close>

lemma wizardStep_next_prev:
  "wizardStep (newModel (Update L w m wizardNextStepMsg)) = wizardStep m + 1"
  "sint (wizardStep m) < 2 ^ 63 - 1 \<Longrightarrow>
     sint (wizardStep (newModel (Update L w m wizardNextStepMsg))) = sint (wizardStep m) + 1"
  "sint (wizardStep (newModel (Update L w m wizardPrevStepMsg)))
     = (if 1 < sint (wizardStep m) then sint (wizardStep m) - 1 else sint (wizardStep m))"
proof -
  show "wizardStep (newModel (Update L w m wizardNextStepMsg)) = wizardStep m + 1"
    by (simp add: wizardStep_Update)
  show "sint (wizardStep m) < 2 ^ 63 - 1 \<Longrightarrow>
     sint (wizardStep (newModel (Update L w m wizardNextStepMsg))) = sint (wizardStep m) + 1"
    by (simp add: wizardStep_Update sint_add_one)
  have "1 < sint (wizardStep m) \<Longrightarrow> sint (wizardStep m - 1) = sint (wizardStep m) - 1"
    by (intro sint_sub_one) simp
  then show "sint (wizardStep (newModel (Update L w m wizardPrevStepMsg)))
     = (if 1 < sint (wizardStep m) then sint (wizardStep m) - 1 else sint (wizardStep m))"
    by (simp add: wizardStep_Update)
qed

lemma wizardStep_range_guarded:
  assumes "0 \<le> sint (wizardStep m)" and "sint (wizardStep m) \<le> 6"
    and "msg = wizardNextStepMsg \<or> (\<exists>a b. msg = updateWizardConfigMsg a b)
           \<Longrightarrow> sint (wizardStep m) < 6"
  shows "0 \<le> sint (wizardStep (newModel (Update L w m msg)))
       \<and> sint (wizardStep (newModel (Update L w m msg))) \<le> 6"
proof (cases msg)
  case wizardNextStepMsg
  with assms have "sint (wizardStep m) < 6" by simp
  with assms(1) wizardNextStepMsg show ?thesis
    by (simp add: wizardStep_Update sint_add_one)
next
  case (updateWizardConfigMsg a b)
  with assms have "sint (wizardStep m) < 6" by simp
  with assms(1) updateWizardConfigMsg show ?thesis
    by (simp add: wizardStep_Update sint_add_one)
next
  case wizardPrevStepMsg
  with assms(1,2) show ?thesis
    by (simp add: wizardStep_next_prev(3))
next
  case (KeyMsg k)
  with assms(1,2) show ?thesis by (auto simp add: wizardStep_Update)
qed (use assms(1,2) in \<open>simp_all add: wizardStep_Update\<close>)

text \<open>
  C8. The code at the failing input: the next-step message at step 6 (Completion). The
  handler increments the step without a test, so the step becomes 7, outside \<open>0..6\<close>,
  and the modal shown is the fallback of \<open>getWizardModal\<close>, the Welcome modal; it
  schedules nothing but the toast component's command.
\<close>

theorem wizard_step_next_at_completion:
  assumes "wizardStep m = 6"
  shows "sint (wizardStep (newModel (Update L w m wizardNextStepMsg))) = 7
       \<and> modal (newModel (Update L w m wizardNextStepMsg)) = Some createWizardWelcomeModal
       \<and> cmd (Update L w m wizardNextStepMsg)
           = libCmd (snd (alertUpdate L (alert m) wizardNextStepMsg))"
  using assms
  by (simp add: Update_def updateLifecycle_def Let_def getWizardModal_def ret_def)

text \<open>
  The wizard at the Completion step, its modal on screen; and seven next-step messages
  from the initial state of a first run.
\<close>

theorem wizard_step_next_at_completion_witness:
  "wizardMode (exampleWizard 6 (Some (createWizardCompletionModal exampleLibs
      (exampleWizard 6 None))))
   \<and> wizardStep (exampleWizard 6 (Some (createWizardCompletionModal exampleLibs
      (exampleWizard 6 None)))) = 6
   \<and> sint (wizardStep (newModel (Update exampleLibs exampleWorld
        (exampleWizard 6 (Some (createWizardCompletionModal exampleLibs (exampleWizard 6 None))))
        wizardNextStepMsg))) = 7
   \<and> map_option Title (modal (newModel (Update exampleLibs exampleWorld
        (exampleWizard 6 (Some (createWizardCompletionModal exampleLibs (exampleWizard 6 None))))
        wizardNextStepMsg))) = Some ''Welcome to Maestro''
   \<and> wizardMode (NewWithCache exampleLibs freshWorld ''maestro-'' None)
   \<and> wizardStep (NewWithCache exampleLibs freshWorld ''maestro-'' None) = 0
   \<and> sint (wizardStep (run exampleLibs (NewWithCache exampleLibs freshWorld ''maestro-'' None)
        (replicate 7 (freshWorld, wizardNextStepMsg)))) = 7"
proof -
  let ?m = "exampleWizard 6 (Some (createWizardCompletionModal exampleLibs
      (exampleWizard 6 None)))"
  have h: "wizardStep ?m = 6" and wm: "wizardMode ?m" by (simp_all add: exampleWizard_def)
  have f: "isFirstRun exampleLibs freshWorld"
    by (simp add: isFirstRun_def freshWorld_def exampleWorld_def)
  have r: "\<not> GetBool freshWorld ''wizard.resume_after_auth''"
    by (simp add: freshWorld_def exampleWorld_def)
  have a: "wizardMode (NewWithCache exampleLibs freshWorld ''maestro-'' None)"
    and b: "wizardStep (NewWithCache exampleLibs freshWorld ''maestro-'' None) = 0"
    using f r by (simp_all add: NewWithCache_def Let_def)
  note T = wizard_step_next_at_completion [OF h, of exampleLibs exampleWorld]
  from T [THEN conjunct1] T [THEN conjunct2, THEN conjunct1] h wm a
  show ?thesis
    by (simp add: run_next b createWizardWelcomeModal_def)
qed

subsection \<open>Resuming after the authentication step\<close>

lemma isFirstRun_resume:
  "GetBool w ''wizard.resume_after_auth'' \<Longrightarrow> isFirstRun L w"
  by (simp add: isFirstRun_def)

lemma Update_prev_from_auth:
  "wizardStep m = 3 \<Longrightarrow>
     wizardStep (newModel (Update L w m wizardPrevStepMsg)) = 2
   \<and> modal (newModel (Update L w m wizardPrevStepMsg)) = Some createWizardWelcomeModal"
  by (simp add: Update_def updateLifecycle_def Let_def getWizardModal_def)

lemma Update_resize_at_auth:
  "wizardMode m \<Longrightarrow> wizardStep m = 3 \<Longrightarrow> modal m = None \<Longrightarrow> homeView m = None \<Longrightarrow>
     wizardStep (newModel (Update L w m (WindowSizeMsg wd ht))) = 3
   \<and> modal (newModel (Update L w m (WindowSizeMsg wd ht)))
       = Some (createWizardAuthModal m (\<not> isFirstRun L w))"
  by (simp add: Update_def updateLifecycle_def updateMain_def isQuitKey_def Let_def
        getWizardModal_def createWizardAuthModal_def)

text \<open>
  C7, as stated, fails: the wizard resumed at Auth shows the Auth modal at the first
  resize; its Back action returns the Prev message, and that message enters the Welcome
  step.
\<close>

theorem resume_counterexample:
  "GetBool resumeWorld ''wizard.resume_after_auth''
   \<and> wizardStep (NewWithCache exampleLibs resumeWorld ''maestro-'' None) = 3
   \<and> map (\<lambda>a. (Label a, OnSelect a)) (Actions (the (modal (newModel
        (Update exampleLibs resumeWorld (NewWithCache exampleLibs resumeWorld ''maestro-'' None)
           (WindowSizeMsg 80 24))))))
      ! 2 = (''Back'', Returns wizardPrevStepMsg)
   \<and> wizardStep (run exampleLibs (NewWithCache exampleLibs resumeWorld ''maestro-'' None)
        [(resumeWorld, WindowSizeMsg 80 24), (resumeWorld, wizardPrevStepMsg)]) = 2
   \<and> map_option Title (modal (run exampleLibs
        (NewWithCache exampleLibs resumeWorld ''maestro-'' None)
        [(resumeWorld, WindowSizeMsg 80 24), (resumeWorld, wizardPrevStepMsg)]))
      = Some ''Welcome to Maestro''"
proof -
  let ?m0 = "NewWithCache exampleLibs resumeWorld ''maestro-'' None"
  have h: "GetBool resumeWorld ''wizard.resume_after_auth''"
    by (simp add: resumeWorld_def)
  have f: "isFirstRun exampleLibs resumeWorld" by (rule isFirstRun_resume [OF h])
  have i: "wizardMode ?m0" "wizardStep ?m0 = 3" "modal ?m0 = None" "homeView ?m0 = None"
    using f h by (simp_all add: NewWithCache_def Let_def)
  note rz = Update_resize_at_auth [OF i, of exampleLibs resumeWorld 80 24]
  note pv = Update_prev_from_auth [OF rz [THEN conjunct1], of exampleLibs resumeWorld]
  have b: "map (\<lambda>a. (Label a, OnSelect a)) (Actions (the (modal (newModel
        (Update exampleLibs resumeWorld ?m0 (WindowSizeMsg 80 24)))))) ! 2
      = (''Back'', Returns wizardPrevStepMsg)"
    using f by (simp add: rz createWizardAuthModal_def Let_def action_def)
  from h i(2) b pv show ?thesis
    by (simp add: createWizardWelcomeModal_def)
qed

text \<open>
  C7, amended. For every initial state constructed with the resume-after-auth flag set,
  the wizard starts at step 3 (Auth) with the opening animation marked complete and no
  modal; \<open>Init\<close> starts no animation ticker; the first resize shows the Authentication
  modal at step 3 and schedules nothing. The Animation step is never entered afterwards,
  and the PrerequisiteCheck and Welcome steps are entered only by a Prev (Back) message
  (for message sequences shorter than \<open>2^62\<close>).
\<close>

theorem resume_starts_at_auth:
  fixes L w prefix cached w1 wd ht msgs
  assumes "GetBool w ''wizard.resume_after_auth''"
  defines "m0 \<equiv> NewWithCache L w prefix cached"
    and "r \<equiv> Update L w1 (NewWithCache L w prefix cached) (WindowSizeMsg wd ht)"
  shows "wizardMode m0 \<and> wizardStep m0 = 3 \<and> animationComplete m0 \<and> modal m0 = None
       \<and> Init m0 = alertInit
       \<and> wizardStep (newModel r) = 3
       \<and> map_option Title (modal (newModel r)) = Some ''Authentication''
       \<and> cmd r = CmdNil
       \<and> (length msgs < 2 ^ 62 \<longrightarrow> 1 \<le> sint (wizardStep (run L m0 msgs)))
       \<and> (length msgs < 2 ^ 62 \<and> wizardPrevStepMsg \<notin> snd ` set msgs \<longrightarrow>
            3 \<le> sint (wizardStep (run L m0 msgs)))"
proof -
  have f: "isFirstRun L w" by (rule isFirstRun_resume [OF assms(1)])
  have i: "wizardMode m0" "wizardStep m0 = 3" "animationComplete m0" "modal m0 = None"
    "homeView m0 = None"
    using f assms(1) by (simp_all add: m0_def NewWithCache_def Let_def)
  have init: "Init m0 = alertInit" using i by (simp add: Init_def)
  have rz: "wizardStep (newModel r) = 3"
    "map_option Title (modal (newModel r)) = Some ''Authentication''" "cmd r = CmdNil"
    using i unfolding r_def m0_def [symmetric]
    by (simp_all add: Update_def updateLifecycle_def updateMain_def isQuitKey_def Let_def
          getWizardModal_def createWizardAuthModal_def zeroModal_def)
  have b: "length msgs < 2 ^ 62 \<Longrightarrow> sint (wizardStep m0) + int (length msgs) < 2 ^ 63"
    using i(2) by simp
  have n1: "length msgs < 2 ^ 62 \<Longrightarrow> 1 \<le> sint (wizardStep (run L m0 msgs))"
    using run_wizardStep_bounds [of 1 m0 msgs L] b i(2) by simp
  have n3: "length msgs < 2 ^ 62 \<Longrightarrow> wizardPrevStepMsg \<notin> snd ` set msgs \<Longrightarrow>
      3 \<le> sint (wizardStep (run L m0 msgs))"
    using run_wizardStep_bounds [of 3 m0 msgs L] b i(2) by simp
  from i init rz n1 n3 show ?thesis by blast
qed

text \<open>The constructor in the resume world, a resize and a Next.\<close>

theorem resume_witness:
  "GetBool resumeWorld ''wizard.resume_after_auth''
   \<and> wizardStep (NewWithCache exampleLibs resumeWorld ''maestro-'' None) = 3
   \<and> animationComplete (NewWithCache exampleLibs resumeWorld ''maestro-'' None)
   \<and> Init (NewWithCache exampleLibs resumeWorld ''maestro-'' None) = alertInit
   \<and> map_option Title (modal (newModel (Update exampleLibs resumeWorld
        (NewWithCache exampleLibs resumeWorld ''maestro-'' None) (WindowSizeMsg 80 24))))
      = Some ''Authentication''
   \<and> length [(resumeWorld, WindowSizeMsg 80 24), (resumeWorld, wizardNextStepMsg)] < 2 ^ 62
   \<and> wizardPrevStepMsg
        \<notin> snd ` set [(resumeWorld, WindowSizeMsg 80 24), (resumeWorld, wizardNextStepMsg)]
   \<and> 3 \<le> sint (wizardStep (run exampleLibs
        (NewWithCache exampleLibs resumeWorld ''maestro-'' None)
        [(resumeWorld, WindowSizeMsg 80 24), (resumeWorld, wizardNextStepMsg)]))"
proof -
  have h: "GetBool resumeWorld ''wizard.resume_after_auth''"
    by (simp add: resumeWorld_def)
  have l: "length [(resumeWorld, WindowSizeMsg 80 24), (resumeWorld, wizardNextStepMsg)] < 2 ^ 62"
    "wizardPrevStepMsg
        \<notin> snd ` set [(resumeWorld, WindowSizeMsg 80 24), (resumeWorld, wizardNextStepMsg)]"
    by simp_all
  from resume_starts_at_auth [OF h, of exampleLibs "''maestro-''" None resumeWorld 80 24
      "[(resumeWorld, WindowSizeMsg 80 24), (resumeWorld, wizardNextStepMsg)]"] h l
  show ?thesis by blast
qed

end
